theory Spec2Isabelle
  imports Main "HOL-Library.Word"
begin

section \<open>JavaScript values\<close>

text \<open>
  The values that index.js reads from its arguments and from JSON response bodies. The
  numbers are the integers from \<open>-2^53\<close> up to \<open>2^53 - 1\<close>, a 54-bit word read in two's
  complement: each of them is a number of JavaScript as it stands, which no integer beyond
  them need be, and other numbers are not among the values. \<open>JObject\<close> is a plain object
  without methods of its own.
\<close>

datatype jsval = JUndefined | JNull | JBool bool | JNum "54 word" | JStr string | JObject

text \<open>ToBoolean, as used by \<open>!x\<close>, \<open>x || y\<close>, \<open>x && y\<close> and \<open>if (x)\<close>.\<close>

fun truthy :: "jsval \<Rightarrow> bool" where
  "truthy JUndefined = False"
| "truthy JNull = False"
| "truthy (JBool b) = b"
| "truthy (JNum n) = (n \<noteq> 0)"
| "truthy (JStr s) = (s \<noteq> [])"
| "truthy JObject = True"

text \<open>\<open>a || b\<close> yields its first operand when that is truthy, the second otherwise.\<close>

definition js_or :: "jsval \<Rightarrow> jsval \<Rightarrow> jsval" where
  "js_or a b = (if truthy a then a else b)"

definition digit_char :: "nat \<Rightarrow> char" where
  "digit_char d = ''0123456789'' ! (d mod 10)"

fun string_of_nat :: "nat \<Rightarrow> string" where
  "string_of_nat n =
     (if n < 10 then [digit_char n] else string_of_nat (n div 10) @ [digit_char (n mod 10)])"

declare string_of_nat.simps [simp del]

function string_of_pos :: "int \<Rightarrow> string" where
  "string_of_pos i =
     (if i < 10 then [digit_char (nat i)] else string_of_pos (i div 10) @ [digit_char (nat (i mod 10))])"
  by pat_completeness auto

termination
  by (relation "measure nat") auto

declare string_of_pos.simps [simp del]

definition string_of_int :: "int \<Rightarrow> string" where
  "string_of_int i = (if i < 0 then CHR ''-'' # string_of_pos (- i) else string_of_pos i)"

text \<open>
  ToString, as applied by string concatenation with \<open>+\<close>: a number of this range is
  printed by its decimal digits.
\<close>

fun js_to_string :: "jsval \<Rightarrow> string" where
  "js_to_string JUndefined = ''undefined''"
| "js_to_string JNull = ''null''"
| "js_to_string (JBool b) = (if b then ''true'' else ''false'')"
| "js_to_string (JNum n) = string_of_int (sint n)"
| "js_to_string (JStr s) = s"
| "js_to_string JObject = ''[object Object]''"

text \<open>
  An \<open>Error\<close> object: its message and the properties the code attaches to it afterwards
  (\<open>emaildomain\<close>, \<open>captchaurl\<close>).
\<close>

datatype err = Err string "(string \<times> jsval) list"

text \<open>
  What a synchronous call can end in besides returning: an \<open>Error\<close> thrown by the code
  itself, or one of the exceptions the language raises (a property read on \<open>undefined\<close> or
  \<open>null\<close>, a call of something that is no function, a malformed escape sequence).
\<close>

datatype thrown = ThrownError string | TypeError | URIError | SyntaxError

text \<open>
  The outcome of a call. \<open>Unmodelled\<close> marks the inputs on which a library called from
  index.js behaves in a way this development does not describe (characters beyond one
  byte, cookie strings with attributes, the textual SteamID formats); nothing is claimed
  about the code there.
\<close>

datatype 'a res = Normal 'a | Throws thrown | Unmodelled

section \<open>Strings\<close>

definition starts_with :: "string \<Rightarrow> string \<Rightarrow> bool" where
  "starts_with p s = (take (length p) s = p)"

definition ends_with :: "string \<Rightarrow> string \<Rightarrow> bool" where
  "ends_with p s = (length p \<le> length s \<and> drop (length s - length p) s = p)"

text \<open>\<open>s.match(/literal/)\<close> for a pattern without metacharacters: does the text occur?\<close>

fun contains :: "string \<Rightarrow> string \<Rightarrow> bool" where
  "contains p [] = (p = [])"
| "contains p (c # cs) = (starts_with p (c # cs) \<or> contains p cs)"

definition is_digit :: "char \<Rightarrow> bool" where
  "is_digit c = (c \<in> set ''0123456789'')"

text \<open>The line terminators that \<open>.\<close> does not match, among the one-byte characters.\<close>

definition is_line_terminator :: "char \<Rightarrow> bool" where
  "is_line_terminator c = (c = CHR 0x0A \<or> c = CHR 0x0D)"

text \<open>The white space that \<open>String.prototype.trim\<close> strips, among the one-byte characters.\<close>

definition is_space :: "char \<Rightarrow> bool" where
  "is_space c = (c \<in> set [CHR 0x09, CHR 0x0A, CHR 0x0B, CHR 0x0C, CHR 0x0D, CHR 0x20, CHR 0xA0])"

definition trim :: "string \<Rightarrow> string" where
  "trim s = rev (dropWhile is_space (rev (dropWhile is_space s)))"

definition cons_first :: "char \<Rightarrow> string list \<Rightarrow> string list" where
  "cons_first c ws = (case ws of [] \<Rightarrow> [[c]] | w # rest \<Rightarrow> (c # w) # rest)"

text \<open>\<open>s.split(d)\<close> for a one-character separator: never the empty list.\<close>

fun split_char :: "char \<Rightarrow> string \<Rightarrow> string list" where
  "split_char d [] = [[]]"
| "split_char d (c # cs) = (if c = d then [] # split_char d cs else cons_first c (split_char d cs))"

text \<open>\<open>s.split('||')\<close>: the leftmost occurrences of the two bars separate the pieces.\<close>

fun split_bars :: "string \<Rightarrow> string list" where
  "split_bars [] = [[]]"
| "split_bars [c] = [[c]]"
| "split_bars (c # d # cs) =
     (if c = CHR ''|'' \<and> d = CHR ''|'' then [] # split_bars cs
      else cons_first c (split_bars (d # cs)))"

text \<open>\<open>xs.join(sep)\<close>.\<close>

fun join :: "string \<Rightarrow> string list \<Rightarrow> string" where
  "join sep [] = []"
| "join sep [x] = x"
| "join sep (x # y # ys) = x @ sep @ join sep (y # ys)"

text \<open>\<open>parts[i]\<close> read out of range is \<open>undefined\<close>.\<close>

definition part :: "string list \<Rightarrow> nat \<Rightarrow> jsval" where
  "part xs i = (if i < length xs then JStr (xs ! i) else JUndefined)"

subsection \<open>Percent encoding\<close>

definition hex_upper :: "nat \<Rightarrow> char" where
  "hex_upper d = ''0123456789ABCDEF'' ! (d mod 16)"

definition hex_lower :: "nat \<Rightarrow> char" where
  "hex_lower d = ''0123456789abcdef'' ! (d mod 16)"

definition percent :: "nat \<Rightarrow> string" where
  "percent b = [CHR ''%'', hex_upper (b div 16), hex_upper (b mod 16)]"

definition is_unreserved :: "char \<Rightarrow> bool" where
  "is_unreserved c =
     (c \<in> set ''ABCDEFGHIJKLMNOPQRSTUVWXYZabcdefghijklmnopqrstuvwxyz0123456789-_.!~*'()'')"

text \<open>
  \<open>encodeURIComponent\<close>: a character is a code point below 256, and one from 128 on is
  written as the two bytes of its UTF-8 encoding.
\<close>

definition encode_char :: "char \<Rightarrow> string" where
  "encode_char c =
     (let n = (of_char c :: nat) in
      if is_unreserved c then [c]
      else if n < 128 then percent n
      else percent (192 + n div 64) @ percent (128 + n mod 64))"

definition encodeURIComponent :: "jsval \<Rightarrow> string" where
  "encodeURIComponent v = concat (map encode_char (js_to_string v))"

definition hex_value :: "char \<Rightarrow> nat option" where
  "hex_value c =
     (if c \<in> set ''0123456789'' then Some (of_char c - 48)
      else if c \<in> set ''abcdef'' then Some (of_char c - 87)
      else if c \<in> set ''ABCDEF'' then Some (of_char c - 55)
      else None)"

text \<open>
  \<open>decodeURIComponent\<close> on a string: a \<open>%\<close> that two hexadecimal digits do not follow
  throws URIError; an escaped byte below 128 is that character; an escaped byte from 128
  on starts a UTF-8 sequence, which is left out of the model.
\<close>

fun decode_string :: "string \<Rightarrow> string res" where
  "decode_string [] = Normal []"
| "decode_string (c # cs) =
     (if c = CHR ''%'' then
        (case cs of
           h # l # rest \<Rightarrow>
             (case (hex_value h, hex_value l) of
                (Some a, Some b) \<Rightarrow>
                  (if 16 * a + b < 128 then
                     (case decode_string rest of
                        Normal r \<Rightarrow> Normal (char_of (16 * a + b) # r)
                      | Throws e \<Rightarrow> Throws e
                      | Unmodelled \<Rightarrow> Unmodelled)
                   else Unmodelled)
              | _ \<Rightarrow> Throws URIError)
         | _ \<Rightarrow> Throws URIError)
      else
        (case decode_string cs of
           Normal r \<Rightarrow> Normal (c # r)
         | Throws e \<Rightarrow> Throws e
         | Unmodelled \<Rightarrow> Unmodelled))"

definition decodeURIComponent :: "jsval \<Rightarrow> string res" where
  "decodeURIComponent v = decode_string (js_to_string v)"

subsection \<open>The regular expressions of index.js\<close>

fun split_lines :: "string \<Rightarrow> string list" where
  "split_lines [] = [[]]"
| "split_lines (c # cs) =
     (if is_line_terminator c then [] # split_lines cs else cons_first c (split_lines cs))"

fun first_some :: "('a \<Rightarrow> 'b option) \<Rightarrow> 'a list \<Rightarrow> 'b option" where
  "first_some f [] = None"
| "first_some f (x # xs) = (case f x of Some y \<Rightarrow> Some y | None \<Rightarrow> first_some f xs)"

text \<open>
  Group 1 of \<open>/(.+)=/\<close> within one line: \<open>.+\<close> is greedy, so the group runs up to the
  last \<open>=\<close> of the line, and it needs one character at least.
\<close>

definition name_in_line :: "string \<Rightarrow> string option" where
  "name_in_line l =
     (let k = length (dropWhile (\<lambda>c. c \<noteq> CHR ''='') (rev l))
      in if 2 \<le> k then Some (take (k - 1) l) else None)"

text \<open>
  \<open>cookie.match(/(.+)=/)\<close>, group 1: \<open>.\<close> stays within a line, so the leftmost match is
  in the first line that has one. \<open>None\<close> is the \<open>null\<close> that \<open>match\<close> returns.
\<close>

definition match_name :: "string \<Rightarrow> string option" where
  "match_name s = first_some name_in_line (split_lines s)"

text \<open>\<open>cookie.match(/=(\d+)/)\<close>, group 1: the digits after the leftmost \<open>=\<close> that has some.\<close>

fun match_digits :: "string \<Rightarrow> string option" where
  "match_digits [] = None"
| "match_digits (c # cs) =
     (if c = CHR ''='' \<and> takeWhile is_digit cs \<noteq> [] then Some (takeWhile is_digit cs)
      else match_digits cs)"

text \<open>
  \<open>s.match(/([^=]+)=(.+)/)\<close>, groups 1 and 2. The first group is a whole run of
  characters other than \<open>=\<close> (it may span lines), the second the rest of the line after
  the \<open>=\<close> that ends the run; \<open>run\<close> collects the run read so far.
\<close>

fun match_pair_from :: "string \<Rightarrow> string \<Rightarrow> (string \<times> string) option" where
  "match_pair_from run [] = None"
| "match_pair_from run (c # cs) =
     (if c = CHR ''='' then
        (if run \<noteq> [] \<and> takeWhile (\<lambda>x. \<not> is_line_terminator x) cs \<noteq> []
         then Some (run, takeWhile (\<lambda>x. \<not> is_line_terminator x) cs)
         else match_pair_from [] cs)
      else match_pair_from (run @ [c]) cs)"

definition match_pair :: "string \<Rightarrow> (string \<times> string) option" where
  "match_pair s = match_pair_from [] s"

text \<open>
  \<open>location.match(/steamcommunity\.com(\/(id|profiles)\/[^/]+)\/?/)\<close>, group 1, tried at
  every position from the left.
\<close>

definition profile_at :: "string \<Rightarrow> string option" where
  "profile_at s =
     (if starts_with ''steamcommunity.com/id/'' s
        \<and> takeWhile (\<lambda>c. c \<noteq> CHR ''/'') (drop 22 s) \<noteq> []
      then Some (''/id/'' @ takeWhile (\<lambda>c. c \<noteq> CHR ''/'') (drop 22 s))
      else if starts_with ''steamcommunity.com/profiles/'' s
        \<and> takeWhile (\<lambda>c. c \<noteq> CHR ''/'') (drop 28 s) \<noteq> []
      then Some (''/profiles/'' @ takeWhile (\<lambda>c. c \<noteq> CHR ''/'') (drop 28 s))
      else None)"

fun match_profile :: "string \<Rightarrow> string option" where
  "match_profile [] = None"
| "match_profile (c # cs) =
     (case profile_at (c # cs) of Some p \<Rightarrow> Some p | None \<Rightarrow> match_profile cs)"

section \<open>Cookies and the jar\<close>

text \<open>
  A cookie object of the \<open>request\<close> library as far as index.js touches it: the pair it was
  parsed from, the \<open>secure\<close> flag that \<open>_setCookie\<close> assigns, and whether \<open>expires\<close> was set
  to the epoch (\<open>new Date(0)\<close>).
\<close>

record cookie =
  key :: string
  cvalue :: string
  secure :: bool
  expired :: bool

text \<open>The characters that end a pair for the cookie parser, and its control characters.\<close>

definition is_terminator :: "char \<Rightarrow> bool" where
  "is_terminator c = (c = CHR 0x0A \<or> c = CHR 0x0D \<or> c = CHR 0x00)"

definition is_control :: "char \<Rightarrow> bool" where
  "is_control c = ((of_char c :: nat) < 32)"

text \<open>
  \<open>Request.cookie(str)\<close>, the loose parser of the tough-cookie package. The text up to the
  first \<open>;\<close> of the trimmed string is the pair. A \<open>=\<close> in front of the pair is dropped; the
  text before the first \<open>=\<close> then left is the name and the text after it the value, both
  trimmed, and a pair without a \<open>=\<close> is a value under the empty name. With a control
  character in the name or in the value the library returns \<open>undefined\<close> (\<open>None\<close>). Left
  out of the model: attributes after the pair, a pair that holds a line terminator or a
  NUL, and a pair that starts with two \<open>=\<close>.
\<close>

definition Request_cookie :: "string \<Rightarrow> cookie option res" where
  "Request_cookie str =
     (let pair = takeWhile (\<lambda>c. c \<noteq> CHR '';'') (trim str);
          attributes = trim (drop (Suc (length pair)) (trim str));
          q = (if take 1 pair = ''='' then drop 1 pair else pair);
          name = (if CHR ''='' \<in> set q then trim (takeWhile (\<lambda>c. c \<noteq> CHR ''='') q) else []);
          val = (if CHR ''='' \<in> set q then trim (drop 1 (dropWhile (\<lambda>c. c \<noteq> CHR ''='') q)) else trim q)
      in if attributes \<noteq> [] \<or> list_ex is_terminator pair \<or> take 2 pair = ''=='' then Unmodelled
         else if list_ex is_control name \<or> list_ex is_control val then Normal None
         else Normal (Some \<lparr>key = name, cvalue = val, secure = False, expired = False\<rparr>))"

text \<open>\<open>cookie.cookieString()\<close>: a cookie with the empty name is its value alone.\<close>

definition cookieString :: "cookie \<Rightarrow> string" where
  "cookieString c = (if key c = [] then cvalue c else key c @ ''='' @ cvalue c)"

text \<open>
  The jar is kept as the sequence of its writes: each \<open>jar.setCookie(cookie, url)\<close> adds
  the pair of the URL and the cookie. What a host sees is computed from the writes the way
  the library stores cookies: one cookie per host and name, a later write replacing the
  earlier one in its place, a write of an expired cookie removing it; a secure cookie is
  shown to https URLs only.
\<close>

type_synonym jar = "(string \<times> cookie) list"

definition url_scheme :: "string \<Rightarrow> string" where
  "url_scheme u = takeWhile (\<lambda>c. c \<noteq> CHR '':'') u"

definition url_host :: "string \<Rightarrow> string" where
  "url_host u = takeWhile (\<lambda>c. c \<noteq> CHR ''/'') (drop 3 (dropWhile (\<lambda>c. c \<noteq> CHR '':'') u))"

fun put_cookie :: "string \<Rightarrow> cookie \<Rightarrow> (string \<times> cookie) list \<Rightarrow> (string \<times> cookie) list" where
  "put_cookie h c [] = [(h, c)]"
| "put_cookie h c ((h', c') # rest) =
     (if h' = h \<and> key c' = key c then (h, c) # rest else (h', c') # put_cookie h c rest)"

definition remove_cookie :: "string \<Rightarrow> string \<Rightarrow> (string \<times> cookie) list \<Rightarrow> (string \<times> cookie) list" where
  "remove_cookie h k store = filter (\<lambda>(h', c'). \<not> (h' = h \<and> key c' = k)) store"

definition store_write :: "(string \<times> cookie) list \<Rightarrow> string \<times> cookie \<Rightarrow> (string \<times> cookie) list" where
  "store_write store w =
     (if expired (snd w) then remove_cookie (url_host (fst w)) (key (snd w)) store
      else put_cookie (url_host (fst w)) (snd w) store)"

definition jar_store :: "jar \<Rightarrow> (string \<times> cookie) list" where
  "jar_store j = foldl store_write [] j"

definition visible :: "string \<Rightarrow> string \<times> cookie \<Rightarrow> bool" where
  "visible url hc =
     (fst hc = url_host url \<and> (if secure (snd hc) then url_scheme url = ''https'' else True))"

definition getCookieString :: "jar \<Rightarrow> string \<Rightarrow> string" where
  "getCookieString j url = join ''; '' (map (\<lambda>hc. cookieString (snd hc)) (filter (visible url) (jar_store j)))"

section \<open>The client\<close>

text \<open>
  A request handed to the HTTP layer (\<open>httpRequest\<close>, \<open>httpRequestGet\<close>, \<open>httpRequestPost\<close> of
  components/http.js): its method, URI, form, headers and the other options the caller
  sets. The response arrives later, as the argument of the handler that the caller passed.
\<close>

record http_request =
  req_method :: string
  req_uri :: string
  req_form :: "(string \<times> jsval) list option"
  req_headers :: "(string \<times> jsval) list"
  req_flags :: "(string \<times> jsval) list"

text \<open>An argument of a callback or of an event handler.\<close>

datatype cbval = CbErr err | CbVal jsval | CbList "string list" | CbObj "(string \<times> jsval) list"

text \<open>What the client does to the outside, in the order it does it.\<close>

datatype effect =
    HttpRequest http_request
  | Callback "cbval list"
  | Emit string "cbval list"

record options =
  opt_timeout :: jsval
  opt_userAgent :: jsval
  opt_localAddress :: jsval
  opt_mobileUserAgent :: jsval

text \<open>
  The fields of a \<open>SteamCommunity\<close> instance that index.js reads and writes, and with them
  the surroundings that its code depends on: the pending timers of \<open>setTimeout\<close> (each one
  deletes \<open>_profileURL\<close> when it fires, so its due time is all there is to it), the clock
  in milliseconds, and the trace of effects. \<open>steamID\<close> holds the 64-bit id in decimal;
  \<open>None\<close> in \<open>steamID\<close> and \<open>profileURL\<close> is the property being absent.
\<close>

record client =
  jar :: jar
  captchaGid :: jsval
  httpRequestID :: nat
  options :: options
  steamID :: "string option"
  oAuthToken :: jsval
  profileURL :: "string option"
  timers :: "nat list"
  clock :: nat
  trace :: "effect list"

definition emit :: "effect \<Rightarrow> client \<Rightarrow> client" where
  "emit e st = st\<lparr>trace := trace st @ [e]\<rparr>"

text \<open>Run \<open>f\<close> after a statement that returned; an exception ends the whole call.\<close>

definition then_do :: "unit res \<times> client \<Rightarrow> (client \<Rightarrow> 'a res \<times> client) \<Rightarrow> 'a res \<times> client" where
  "then_do r f =
     (case fst r of
        Normal u \<Rightarrow> f (snd r)
      | Throws e \<Rightarrow> (Throws e, snd r)
      | Unmodelled \<Rightarrow> (Unmodelled, snd r))"

subsection \<open>Writing cookies\<close>

text \<open>\<open>SteamCommunity.prototype._setCookie\<close>, called with a cookie object.\<close>

definition setCookie :: "cookie \<Rightarrow> jsval \<Rightarrow> client \<Rightarrow> client" where
  "setCookie c sec st =
     (let protocol = (if truthy sec then ''https'' else ''http'');
          c' = c\<lparr>secure := truthy sec\<rparr>
      in st\<lparr>jar := jar st @
           [(protocol @ ''://steamcommunity.com'', c'),
            (protocol @ ''://store.steampowered.com'', c'),
            (protocol @ ''://help.steampowered.com'', c')]\<rparr>)"

text \<open>
  \<open>this._setCookie(Request.cookie(str), sec)\<close>: when the library returns \<open>undefined\<close> for
  the string, the assignment \<open>cookie.secure = ...\<close> in \<open>_setCookie\<close> throws before the jar
  is touched.
\<close>

definition setCookie_of :: "string \<Rightarrow> jsval \<Rightarrow> client \<Rightarrow> unit res \<times> client" where
  "setCookie_of str sec st =
     (case Request_cookie str of
        Normal None \<Rightarrow> (Throws TypeError, st)
      | Normal (Some c) \<Rightarrow> (Normal (), setCookie c sec st)
      | Throws e \<Rightarrow> (Throws e, st)
      | Unmodelled \<Rightarrow> (Unmodelled, st))"

text \<open>The same with \<open>cookie.expires = new Date(0)\<close> in between, as \<open>deleteMobileCookies\<close> does.\<close>

definition setCookie_expired :: "string \<Rightarrow> client \<Rightarrow> unit res \<times> client" where
  "setCookie_expired str st =
     (case Request_cookie str of
        Normal None \<Rightarrow> (Throws TypeError, st)
      | Normal (Some c) \<Rightarrow> (Normal (), setCookie (c\<lparr>expired := True\<rparr>) JUndefined st)
      | Throws e \<Rightarrow> (Throws e, st)
      | Unmodelled \<Rightarrow> (Unmodelled, st))"

text \<open>
  The constructor \<open>SteamCommunity(options)\<close> for an options object; the defaults it hands to
  the \<open>request\<close> library stay in \<open>options\<close>.
\<close>

definition SteamCommunity :: "options \<Rightarrow> client" where
  "SteamCommunity opts =
     snd (then_do
       (setCookie_of ''Steam_Language=english'' JUndefined
          \<lparr>jar = [], captchaGid = JNum (- 1), httpRequestID = 0, options = opts,
           steamID = None, oAuthToken = JUndefined, profileURL = None,
           timers = [], clock = 0, trace = []\<rparr>)
       (setCookie_of ''timezoneOffset=0,0'' JUndefined))"

text \<open>A string of digits without its leading zeros: the decimal form of the number it names.\<close>

definition canonical_digits :: "string \<Rightarrow> string" where
  "canonical_digits s = (case dropWhile (\<lambda>c. c = CHR ''0'') s of [] \<Rightarrow> ''0'' | d # ds \<Rightarrow> d # ds)"

text \<open>Of two strings of digits of one length: the first names no greater number than the second.\<close>

fun digits_le :: "string \<Rightarrow> string \<Rightarrow> bool" where
  "digits_le [] ys = True"
| "digits_le (x # xs) [] = False"
| "digits_le (x # xs) (y # ys) = ((of_char x :: nat) < of_char y \<or> (x = y \<and> digits_le xs ys))"

text \<open>A decimal form that names a number below \<open>2^64\<close>.\<close>

definition fits_uint64 :: "string \<Rightarrow> bool" where
  "fits_uint64 s = (length s < 20 \<or> (length s = 20 \<and> digits_le s ''18446744073709551615''))"

text \<open>
  \<open>new SteamID(input)\<close> of the steamid package, by the decimal form that the id prints as
  (\<open>getSteamID64\<close>, \<open>toString\<close>): nothing (or the empty string) gives the blank id 0, and a
  string of digits that names a number below \<open>2^64\<close> gives that number, printed without
  leading zeros. The other inputs (the textual formats, greater numbers) are left out of
  the model.
\<close>

definition new_SteamID :: "jsval \<Rightarrow> string res" where
  "new_SteamID v =
     (if \<not> truthy v then Normal ''0''
      else case v of
        JStr s \<Rightarrow>
          (if list_all is_digit s \<and> fits_uint64 (canonical_digits s) then Normal (canonical_digits s)
           else Unmodelled)
      | _ \<Rightarrow> Unmodelled)"

text \<open>\<open>SteamCommunity.prototype.setCookies\<close>: \<open>forEach\<close> over the strings, ended by the first exception.\<close>

fun setCookies :: "string list \<Rightarrow> client \<Rightarrow> unit res \<times> client" where
  "setCookies [] st = (Normal (), st)"
| "setCookies (c # cs) st =
     (case match_name c of
        None \<Rightarrow> (Throws TypeError, st)
      | Some cookieName \<Rightarrow>
          then_do
            (if cookieName = ''steamLogin'' \<or> cookieName = ''steamLoginSecure'' then
               (case match_digits c of
                  None \<Rightarrow> (Throws TypeError, st)
                | Some d \<Rightarrow>
                    (case new_SteamID (JStr d) of
                       Normal sid \<Rightarrow> (Normal (), st\<lparr>steamID := Some sid\<rparr>)
                     | Throws e \<Rightarrow> (Throws e, st)
                     | Unmodelled \<Rightarrow> (Unmodelled, st)))
             else (Normal (), st))
            (\<lambda>st1. then_do
               (setCookie_of c
                  (JBool (starts_with ''steamMachineAuth'' cookieName \<or> ends_with ''Secure'' cookieName)) st1)
               (setCookies cs)))"

subsection \<open>The session id\<close>

definition hex_byte :: "8 word \<Rightarrow> string" where
  "hex_byte b = [hex_lower (unat b div 16), hex_lower (unat b mod 16)]"

text \<open>
  \<open>generateSessionID\<close>: \<open>crypto.randomBytes(12).toString('hex')\<close>, the twelve bytes being
  those that the random source \<open>rnd\<close> gives.
\<close>

definition generateSessionID :: "(nat \<Rightarrow> 8 word) \<Rightarrow> string" where
  "generateSessionID rnd = concat (map (\<lambda>i. hex_byte (rnd i)) [0..<12])"

text \<open>
  The loop of \<open>getSessionID\<close> over the pieces of the cookie string: the value of the first
  piece named \<open>sessionid\<close>, \<open>None\<close> when the loop runs out, TypeError when a piece on the
  way does not match (\<open>match\<close> is \<open>null\<close> and \<open>match[1]\<close> throws).
\<close>

fun find_sessionid :: "string list \<Rightarrow> string option res" where
  "find_sessionid [] = Normal None"
| "find_sessionid (c # cs) =
     (case match_pair (trim c) of
        None \<Rightarrow> Throws TypeError
      | Some m \<Rightarrow> (if fst m = ''sessionid'' then Normal (Some (snd m)) else find_sessionid cs))"

text \<open>\<open>SteamCommunity.prototype.getSessionID\<close>; \<open>None\<close> for the host is the argument left out.\<close>

definition getSessionID :: "(nat \<Rightarrow> 8 word) \<Rightarrow> string option \<Rightarrow> client \<Rightarrow> string res \<times> client" where
  "getSessionID rnd host st =
     (let url = (case host of None \<Rightarrow> ''http://steamcommunity.com'' | Some h \<Rightarrow> h) in
      case find_sessionid (split_char CHR '';'' (getCookieString (jar st) url)) of
        Throws e \<Rightarrow> (Throws e, st)
      | Unmodelled \<Rightarrow> (Unmodelled, st)
      | Normal (Some v) \<Rightarrow> (decodeURIComponent (JStr v), st)
      | Normal None \<Rightarrow>
          then_do (setCookie_of (''sessionid='' @ generateSessionID rnd) JUndefined st)
            (\<lambda>st1. (Normal (generateSessionID rnd), st1)))"

section \<open>Logging in\<close>

record details =
  accountName :: jsval
  password :: jsval
  steamguard :: jsval
  disableMobile :: jsval
  mobileUserAgent :: jsval
  captcha :: jsval
  authCode :: jsval
  twoFactorCode :: jsval

text \<open>The headers that \<open>login\<close> chooses, kept by its two response handlers.\<close>

definition mobileHeaders :: "details \<Rightarrow> client \<Rightarrow> (string \<times> jsval) list" where
  "mobileHeaders d st =
     (if \<not> truthy (disableMobile d) then
        [(''X-Requested-With'', JStr ''com.valvesoftware.android.steam.community''),
         (''Referer'', JStr ''https://steamcommunity.com/mobilelogin?oauth_client_id=DE45CD61&oauth_scope=read_profile%20write_profile%20read_client%20write_client''),
         (''User-Agent'',
            js_or (opt_mobileUserAgent (options st))
              (js_or (mobileUserAgent d)
                 (JStr ''Mozilla/5.0 (Linux; U; Android 4.1.1; en-us; Google Nexus 4 - 4.1.1 - API 16 - 768x1280 Build/JRO03S) AppleWebKit/534.30 (KHTML, like Gecko) Version/4.0 Mobile Safari/534.30''))),
         (''Accept'', JStr ''text/javascript, text/html, application/xml, text/xml, */*'')]
      else [(''Referer'', JStr ''https://steamcommunity.com/login'')])"

definition deleteMobileCookies :: "client \<Rightarrow> unit res \<times> client" where
  "deleteMobileCookies st =
     then_do (setCookie_expired ''mobileClientVersion='' st) (setCookie_expired ''mobileClient='')"

text \<open>
  \<open>SteamCommunity.prototype.login\<close> up to its return: the check of the credentials, the
  machine-auth cookie, the deletion of the cached profile URL, the mobile cookies, and
  the request for the RSA key.
\<close>

definition login :: "details \<Rightarrow> client \<Rightarrow> unit res \<times> client" where
  "login d st =
     (if \<not> truthy (accountName d) \<or> \<not> truthy (password d) then
        (Throws (ThrownError ''Missing either accountName or password to login; both are needed''), st)
      else
        then_do
          (if truthy (steamguard d) then
             (case steamguard d of
                JStr s \<Rightarrow>
                  setCookie_of
                    (''steamMachineAuth'' @ js_to_string (part (split_bars s) 0) @ ''=''
                       @ encodeURIComponent (part (split_bars s) 1))
                    (JBool True) st
              | _ \<Rightarrow> (Throws TypeError, st))
           else (Normal (), st))
          (\<lambda>st1.
             let st2 = st1\<lparr>profileURL := None\<rparr> in
             then_do
               (if \<not> truthy (disableMobile d) then
                  then_do (setCookie_of ''mobileClientVersion=0 (2.1.3)'' JUndefined st2)
                    (setCookie_of ''mobileClient=android'' JUndefined)
                else (Normal (), st2))
               (\<lambda>st3. (Normal (),
                  emit (HttpRequest
                    \<lparr>req_method = ''POST'',
                     req_uri = ''https://steamcommunity.com/login/getrsakey/'',
                     req_form = Some [(''username'', accountName d)],
                     req_headers = mobileHeaders d st3,
                     req_flags = [(''json'', JBool True)]\<rparr>) st3))))"

record rsakey_body =
  publickey_mod :: jsval
  publickey_exp :: jsval
  timestamp :: jsval

text \<open>
  What the handler of the key takes from the node-bignumber package: how
  \<open>key.setPublic(body.publickey_mod, body.publickey_exp)\<close> ends, and how
  \<open>hex2b64(key.encrypt(details.password))\<close> ends, with the text it returns. The package
  throws on a key that it cannot use and on a password that is too long for the modulus,
  and it pads the password with random bytes, so the text is not a function of the key
  and the password.
\<close>

record rsa_env =
  rsa_setPublic :: "unit res"
  rsa_encrypt :: "string res"

text \<open>
  The form of the second request: \<open>enc\<close> is the text that
  \<open>hex2b64(key.encrypt(details.password))\<close> returned, and \<open>Date.now()\<close> is the clock, a
  time value and as such below \<open>2^53\<close>.
\<close>

definition formObj :: "details \<Rightarrow> string \<Rightarrow> rsakey_body \<Rightarrow> client \<Rightarrow> (string \<times> jsval) list" where
  "formObj d enc body st =
     [(''captcha_text'', js_or (captcha d) (JStr [])),
      (''captchagid'', captchaGid st),
      (''emailauth'', js_or (authCode d) (JStr [])),
      (''emailsteamid'', JStr []),
      (''password'', JStr enc),
      (''remember_login'', JStr ''true''),
      (''rsatimestamp'', timestamp body),
      (''twofactorcode'', js_or (twoFactorCode d) (JStr [])),
      (''username'', accountName d),
      (''loginfriendlyname'',
         (if \<not> truthy (disableMobile d) then JStr ''#login_emailauth_friendlyname_mobile'' else JStr [])),
      (''donotcache'', JNum (of_nat (clock st)))]
     @ (if \<not> truthy (disableMobile d) then
          [(''oauth_client_id'', JStr ''DE45CD61''),
           (''oauth_scope'', JStr ''read_profile write_profile read_client write_client'')]
        else [])"

text \<open>
  The handler of the response to \<open>/login/getrsakey/\<close>. An exception of the package ends
  the handler where it is: the mobile cookies stay, no callback is invoked and no form is
  submitted.
\<close>

definition login_getrsakey_response ::
    "details \<Rightarrow> rsa_env \<Rightarrow> err option \<Rightarrow> rsakey_body \<Rightarrow> client \<Rightarrow> unit res \<times> client" where
  "login_getrsakey_response d rsa error body st =
     (case error of
        Some e \<Rightarrow> then_do (deleteMobileCookies st) (\<lambda>st1. (Normal (), emit (Callback [CbErr e]) st1))
      | None \<Rightarrow>
          (if \<not> truthy (publickey_mod body) \<or> \<not> truthy (publickey_exp body) then
             then_do (deleteMobileCookies st)
               (\<lambda>st1. (Normal (), emit (Callback [CbErr (Err ''Invalid RSA key received'' [])]) st1))
           else
             (case rsa_setPublic rsa of
                Throws e \<Rightarrow> (Throws e, st)
              | Unmodelled \<Rightarrow> (Unmodelled, st)
              | Normal u \<Rightarrow>
                  (case rsa_encrypt rsa of
                     Throws e \<Rightarrow> (Throws e, st)
                   | Unmodelled \<Rightarrow> (Unmodelled, st)
                   | Normal enc \<Rightarrow>
                       (Normal (),
                        emit (HttpRequest
                          \<lparr>req_method = ''POST'',
                           req_uri = ''https://steamcommunity.com/login/dologin/'',
                           req_form = Some (formObj d enc body st),
                           req_headers = mobileHeaders d st,
                           req_flags = [(''json'', JBool True)]\<rparr>) st)))))"

record dologin_body =
  success :: jsval
  emailauth_needed :: jsval
  emaildomain :: jsval
  requires_twofactor :: jsval
  captcha_needed :: jsval
  message :: jsval
  captcha_gid :: jsval
  oauth :: jsval

record oauth_payload =
  oauth_steamid :: jsval
  oauth_token :: jsval

text \<open>
  What the success branch takes from outside index.js: the random source of
  \<open>generateSessionID\<close>, and the outcome of \<open>JSON.parse(body.oauth)\<close> with the two
  properties read from it.
\<close>

record login_env =
  env_random :: "nat \<Rightarrow> 8 word"
  env_oauth :: "oauth_payload res"

text \<open>
  \<open>body.message.match(/Please verify your humanity/)\<close> as a condition: only a string has
  the method, so the call throws on everything else.
\<close>

definition message_match :: "jsval \<Rightarrow> bool res" where
  "message_match m =
     (case m of JStr s \<Rightarrow> Normal (contains ''Please verify your humanity'' s) | _ \<Rightarrow> Throws TypeError)"

text \<open>The loop over the cookies that looks for \<open>steamLogin\<close>: the id to assign, if any.\<close>

fun find_steamLogin :: "string list \<Rightarrow> string option res" where
  "find_steamLogin [] = Normal None"
| "find_steamLogin (c # cs) =
     (if part (split_char CHR ''='' c) 0 = JStr ''steamLogin'' then
        (case decodeURIComponent (part (split_char CHR ''='' c) 1) of
           Normal v \<Rightarrow>
             (case new_SteamID (part (split_bars v) 0) of
                Normal sid \<Rightarrow> Normal (Some sid)
              | Throws e \<Rightarrow> Throws e
              | Unmodelled \<Rightarrow> Unmodelled)
         | Throws e \<Rightarrow> Throws e
         | Unmodelled \<Rightarrow> Unmodelled)
      else find_steamLogin cs)"

text \<open>
  The loop that looks for the Steam Guard cookie \<open>'steamMachineAuth' + this.steamID\<close>; with
  \<open>this.steamID\<close> absent the name ends in \<open>undefined\<close> and \<open>this.steamID.toString()\<close> throws.
\<close>

fun find_steamguard :: "string option \<Rightarrow> string list \<Rightarrow> jsval res" where
  "find_steamguard sid [] = Normal JNull"
| "find_steamguard sid (c # cs) =
     (if part (split_char CHR ''='' c) 0
           = JStr (''steamMachineAuth'' @ (case sid of None \<Rightarrow> ''undefined'' | Some i \<Rightarrow> i)) then
        (case sid of
           None \<Rightarrow> Throws TypeError
         | Some i \<Rightarrow>
             (case decodeURIComponent (part (split_char CHR ''='' c) 1) of
                Normal v \<Rightarrow> Normal (JStr (i @ ''||'' @ v))
              | Throws e \<Rightarrow> Throws e
              | Unmodelled \<Rightarrow> Unmodelled))
      else find_steamguard sid cs)"

text \<open>The last branch of the handler below: the login went through.\<close>

definition login_success :: "details \<Rightarrow> login_env \<Rightarrow> dologin_body \<Rightarrow> client \<Rightarrow> unit res \<times> client" where
  "login_success d env body st =
     (let sessionID = generateSessionID (env_random env) in
      then_do (setCookie_of (''sessionid='' @ sessionID) JUndefined st)
        (\<lambda>st1.
          let cookies = map trim (split_char CHR '';'' (getCookieString (jar st1) ''https://steamcommunity.com'')) in
          then_do
            (if \<not> truthy (disableMobile d) then
               (case env_oauth env of
                  Normal oAuth \<Rightarrow>
                    (case new_SteamID (oauth_steamid oAuth) of
                       Normal sid \<Rightarrow> (Normal (), st1\<lparr>steamID := Some sid, oAuthToken := oauth_token oAuth\<rparr>)
                     | Throws e \<Rightarrow> (Throws e, st1)
                     | Unmodelled \<Rightarrow> (Unmodelled, st1))
                | Throws e \<Rightarrow> (Throws e, st1)
                | Unmodelled \<Rightarrow> (Unmodelled, st1))
             else
               (case find_steamLogin cookies of
                  Normal found \<Rightarrow>
                    (Normal (),
                     st1\<lparr>steamID := (case found of None \<Rightarrow> steamID st1 | Some sid \<Rightarrow> Some sid),
                         oAuthToken := JNull\<rparr>)
                | Throws e \<Rightarrow> (Throws e, st1)
                | Unmodelled \<Rightarrow> (Unmodelled, st1)))
            (\<lambda>st2.
              case find_steamguard (steamID st2) cookies of
                Throws e \<Rightarrow> (Throws e, st2)
              | Unmodelled \<Rightarrow> (Unmodelled, st2)
              | Normal sg \<Rightarrow>
                  then_do (setCookies cookies st2)
                    (\<lambda>st3. (Normal (),
                       emit (Callback
                         [CbVal JNull, CbVal (JStr sessionID), CbList cookies, CbVal sg,
                          CbVal (if truthy (disableMobile d) then JNull
                                 else (case env_oauth env of Normal oAuth \<Rightarrow> oauth_token oAuth | _ \<Rightarrow> JUndefined))])
                         st3)))))"

text \<open>The handler of the response to \<open>/login/dologin/\<close>.\<close>

definition login_dologin_response ::
    "details \<Rightarrow> login_env \<Rightarrow> err option \<Rightarrow> dologin_body \<Rightarrow> client \<Rightarrow> unit res \<times> client" where
  "login_dologin_response d env error body st =
     then_do (deleteMobileCookies st)
       (\<lambda>st1.
         case error of
           Some e \<Rightarrow> (Normal (), emit (Callback [CbErr e]) st1)
         | None \<Rightarrow>
             (if \<not> truthy (success body) \<and> truthy (emailauth_needed body) then
                (Normal (), emit (Callback [CbErr (Err ''SteamGuard'' [(''emaildomain'', emaildomain body)])]) st1)
              else if \<not> truthy (success body) \<and> truthy (requires_twofactor body) then
                (Normal (), emit (Callback [CbErr (Err ''SteamGuardMobile'' [])]) st1)
              else
                (case (if \<not> truthy (success body) \<and> truthy (captcha_needed body)
                       then message_match (message body) else Normal False) of
                   Throws e \<Rightarrow> (Throws e, st1)
                 | Unmodelled \<Rightarrow> (Unmodelled, st1)
                 | Normal True \<Rightarrow>
                     (Normal (),
                      emit (Callback [CbErr (Err ''CAPTCHA''
                          [(''captchaurl'', JStr (''https://steamcommunity.com/login/rendercaptcha/?gid=''
                              @ js_to_string (captcha_gid body)))])])
                        (st1\<lparr>captchaGid := captcha_gid body\<rparr>))
                 | Normal False \<Rightarrow>
                     (if \<not> truthy (success body) then
                        (Normal (),
                         emit (Callback [CbErr (Err (js_to_string (js_or (message body) (JStr ''Unknown error''))) [])]) st1)
                      else if \<not> truthy (disableMobile d) \<and> \<not> truthy (oauth body) then
                        (Normal (), emit (Callback [CbErr (Err ''Malformed response'' [])]) st1)
                      else login_success d env body st1))))"

section \<open>The profile URL and its cache\<close>

text \<open>
  The first argument of \<open>_myProfile\<close>: a string, or an options object with its \<open>endpoint\<close>
  and \<open>method\<close> properties and the options it holds besides.
\<close>

datatype endpoint = EndpointString string | EndpointOptions jsval jsval "(string \<times> jsval) list"

text \<open>\<open>endpoint.endpoint || endpoint\<close>, as the string that the concatenation makes of it.\<close>

fun endpoint_path :: "endpoint \<Rightarrow> string" where
  "endpoint_path (EndpointString s) = s"
| "endpoint_path (EndpointOptions e m other) = (if truthy e then js_to_string e else ''[object Object]'')"

text \<open>\<open>options.method\<close> and the other options, where \<open>options\<close> is the endpoint object or \<open>{}\<close>.\<close>

fun options_method :: "endpoint \<Rightarrow> jsval" where
  "options_method (EndpointString s) = JUndefined"
| "options_method (EndpointOptions e m other) = (if truthy e then m else JUndefined)"

fun options_other :: "endpoint \<Rightarrow> (string \<times> jsval) list" where
  "options_other (EndpointString s) = []"
| "options_other (EndpointOptions e m other) = (if truthy e then other else [])"

text \<open>\<open>completeRequest(url)\<close> inside \<open>_myProfile\<close>; a form is an object, \<open>None\<close> is \<open>null\<close>.\<close>

definition completeRequest ::
    "endpoint \<Rightarrow> (string \<times> jsval) list option \<Rightarrow> string \<Rightarrow> client \<Rightarrow> client" where
  "completeRequest ep form url st =
     emit (HttpRequest
       \<lparr>req_method =
          (if form \<noteq> None then ''POST''
           else if \<not> truthy (options_method ep) then ''GET''
           else js_to_string (options_method ep)),
        req_uri = ''https://steamcommunity.com'' @ url @ ''/'' @ endpoint_path ep,
        req_form = form,
        req_headers = [],
        req_flags = options_other ep @ (if form \<noteq> None then [(''followAllRedirects'', JBool True)] else [])\<rparr>) st"

definition my_request :: http_request where
  "my_request =
     \<lparr>req_method = ''GET'', req_uri = ''https://steamcommunity.com/my'', req_form = None,
      req_headers = [], req_flags = [(''followRedirect'', JBool False)]\<rparr>"

text \<open>\<open>SteamCommunity.prototype._myProfile\<close> up to its return.\<close>

definition myProfile :: "endpoint \<Rightarrow> (string \<times> jsval) list option \<Rightarrow> client \<Rightarrow> client" where
  "myProfile ep form st =
     (case profileURL st of
        Some url \<Rightarrow> (if url \<noteq> [] then completeRequest ep form url st else emit (HttpRequest my_request) st)
      | None \<Rightarrow> emit (HttpRequest my_request) st)"

text \<open>
  The handler of the response to \<open>/my\<close>: the error of the HTTP layer, the status code and
  the \<open>Location\<close> header (\<open>None\<close> when the response has none).
\<close>

definition myProfile_response ::
    "endpoint \<Rightarrow> (string \<times> jsval) list option \<Rightarrow> err option \<Rightarrow> nat \<Rightarrow> string option \<Rightarrow> client
      \<Rightarrow> unit res \<times> client" where
  "myProfile_response ep form error status location st =
     (case error of
        Some e \<Rightarrow> (Normal (), emit (Callback [CbErr e]) st)
      | None \<Rightarrow>
          (if status \<noteq> 302 then
             (Normal (), emit (Callback [CbVal (JStr (''HTTP error '' @ string_of_nat status))]) st)
           else
             (case location of
                None \<Rightarrow> (Throws TypeError, st)
              | Some loc \<Rightarrow>
                  (case match_profile loc of
                     None \<Rightarrow> (Normal (), emit (Callback [CbErr (Err ''Can't get profile URL'' [])]) st)
                   | Some p \<Rightarrow>
                       (Normal (),
                        completeRequest ep form p
                          (st\<lparr>profileURL := Some p, timers := timers st @ [clock st + 60000]\<rparr>))))))"

text \<open>
  Time passing up to \<open>t\<close>: the timers that are due fire, each deleting \<open>_profileURL\<close>, and
  are gone; nothing in index.js cancels a timer.
\<close>

definition advance :: "nat \<Rightarrow> client \<Rightarrow> client" where
  "advance t st =
     st\<lparr>clock := max (clock st) t,
        timers := filter (\<lambda>due. \<not> due \<le> t) (timers st),
        profileURL := (if filter (\<lambda>due. due \<le> t) (timers st) = [] then profileURL st else None)\<rparr>"

section \<open>The client logon token\<close>

text \<open>
  Modelled from the spec: \<open>_notifySessionExpired\<close> is defined in components/http.js, which
  is not among the sources. Section 4.5 of the specification has the component that
  detects the expiry emit a session-expired event carrying the error, once per detection.
\<close>

definition notifySessionExpired :: "err \<Rightarrow> client \<Rightarrow> client" where
  "notifySessionExpired e st = emit (Emit ''sessionExpired'' [CbErr e]) st"

definition getClientLogonToken :: "client \<Rightarrow> client" where
  "getClientLogonToken st =
     emit (HttpRequest
       \<lparr>req_method = ''GET'', req_uri = ''https://steamcommunity.com/chat/clientjstoken'',
        req_form = None, req_headers = [], req_flags = [(''json'', JBool True)]\<rparr>) st"

record clientjstoken_body =
  logged_in :: jsval
  steamid :: jsval
  account_name :: jsval
  token :: jsval

text \<open>The handler of the response to \<open>/chat/clientjstoken\<close>.\<close>

definition getClientLogonToken_response ::
    "err option \<Rightarrow> nat \<Rightarrow> clientjstoken_body \<Rightarrow> client \<Rightarrow> unit res \<times> client" where
  "getClientLogonToken_response error status body st =
     (case error of
        Some e \<Rightarrow> (Normal (), emit (Callback [CbErr e]) st)
      | None \<Rightarrow>
          (if status \<noteq> 200 then
             (Normal (), emit (Callback [CbErr (Err (''HTTP error '' @ string_of_nat status) [])]) st)
           else if \<not> truthy (logged_in body) then
             (Normal (),
              notifySessionExpired (Err ''Not Logged In'' [])
                (emit (Callback [CbErr (Err ''Not Logged In'' [])]) st))
           else if \<not> truthy (steamid body) \<or> \<not> truthy (account_name body) \<or> \<not> truthy (token body) then
             (Normal (), emit (Callback [CbErr (Err ''Malformed response'' [])]) st)
           else
             (case new_SteamID (steamid body) of
                Normal sid \<Rightarrow>
                  (Normal (),
                   emit (Callback
                     [CbVal JNull,
                      CbObj [(''steamID'', JStr sid), (''accountName'', account_name body),
                             (''webLogonToken'', token body)]]) st)
              | Throws e \<Rightarrow> (Throws e, st)
              | Unmodelled \<Rightarrow> (Unmodelled, st))))"

section \<open>Observations\<close>

text \<open>The three collaborating domains take a cookie under the scheme that its flag names.\<close>

definition scheme :: "cookie \<Rightarrow> string" where
  "scheme c = (if secure c then ''https'' else ''http'')"

definition copies :: "cookie \<Rightarrow> jar" where
  "copies c =
     [(scheme c @ ''://steamcommunity.com'', c),
      (scheme c @ ''://store.steampowered.com'', c),
      (scheme c @ ''://help.steampowered.com'', c)]"

text \<open>A sequence of writes made of such triples only.\<close>

fun replicated :: "jar \<Rightarrow> bool" where
  "replicated [] = True"
| "replicated (w1 # w2 # w3 # rest) = ([w1, w2, w3] = copies (snd w1) \<and> replicated rest)"
| "replicated [w1] = False"
| "replicated [w1, w2] = False"

text \<open>The later client has the writes of the earlier one and, after them, triples only.\<close>

definition jar_extends :: "client \<Rightarrow> client \<Rightarrow> bool" where
  "jar_extends st st' =
     (take (length (jar st)) (jar st') = jar st \<and> replicated (drop (length (jar st)) (jar st')))"

text \<open>A field of the form of a request.\<close>

fun form_field :: "effect \<Rightarrow> string \<Rightarrow> jsval option" where
  "form_field (HttpRequest r) name = (case req_form r of None \<Rightarrow> None | Some f \<Rightarrow> map_of f name)"
| "form_field (Callback args) name = None"
| "form_field (Emit ev args) name = None"

text \<open>How often the profile URL was asked for, and how often the session was reported expired.\<close>

definition resolutions :: "effect list \<Rightarrow> nat" where
  "resolutions tr = length (filter (\<lambda>e. e = HttpRequest my_request) tr)"

fun is_sessionExpired :: "effect \<Rightarrow> bool" where
  "is_sessionExpired (Emit ev args) = (ev = ''sessionExpired'')"
| "is_sessionExpired (HttpRequest r) = False"
| "is_sessionExpired (Callback args) = False"

subsection \<open>Sample inputs\<close>

definition default_options :: options where
  "default_options =
     \<lparr>opt_timeout = JUndefined, opt_userAgent = JUndefined, opt_localAddress = JUndefined,
      opt_mobileUserAgent = JUndefined\<rparr>"

definition credentials :: "string \<Rightarrow> string \<Rightarrow> details" where
  "credentials name pw =
     \<lparr>accountName = JStr name, password = JStr pw, steamguard = JUndefined,
      disableMobile = JBool True, mobileUserAgent = JUndefined, captcha = JUndefined,
      authCode = JUndefined, twoFactorCode = JUndefined\<rparr>"

definition failed_body :: dologin_body where
  "failed_body =
     \<lparr>success = JBool False, emailauth_needed = JUndefined, emaildomain = JUndefined,
      requires_twofactor = JUndefined, captcha_needed = JUndefined, message = JUndefined,
      captcha_gid = JUndefined, oauth = JUndefined\<rparr>"

definition sample_env :: login_env where
  "sample_env = \<lparr>env_random = (\<lambda>i. of_nat (17 * i)), env_oauth = Throws SyntaxError\<rparr>"

text \<open>
  A key of 1024 bits, and what the package returns for it and the password \<open>hunter2\<close>
  when byte \<open>i\<close> of the padding is \<open>17 * i mod 255 + 1\<close>.
\<close>

definition sample_key :: rsakey_body where
  "sample_key =
     \<lparr>publickey_mod = JStr ''D4A91B15A514A317A7430B9823DE6F5144BD815EA4B5EC247C1C951B9185A42711ED597BF5B9B2FC3C31202770591C54D2CFF77F9B58368E57EBBFA0A826BB7E1FB712DD9C6432268334F226A4D802415CD9302077B8E1D2EEE6B91240C7608A0E0BDDFA0DD3E0806595F4F85F477D369C8883A665EB8DC67F95C07964562D29'',
      publickey_exp = JStr ''010001'', timestamp = JStr ''1''\<rparr>"

definition sample_ciphertext :: string where
  "sample_ciphertext =
     ''iKN0jqfF0NpvUair8fA0H6KUZSBv1rUkqiqfPAQd2/S/vFE76E+ResEDIUj4CFAgKULWDf7U4ysxZwOhI79kn4xsoOFtjq4PLyRDnx21mAcmOIQdwe/AFeNbhri+BfwIHkvbYLFfZOv0cv9iGkxYmZYCflqVDjHNVRo7f2ZeNdE=''"

definition sample_rsa :: rsa_env where
  "sample_rsa = \<lparr>rsa_setPublic = Normal (), rsa_encrypt = Normal sample_ciphertext\<rparr>"

subsection \<open>Sample runs\<close>

text \<open>
  A server that answers every request for \<open>/my\<close> at once, by a redirect to one profile: a
  profile-scoped operation at time \<open>t\<close>, with the response handled if a request for \<open>/my\<close>
  went out.
\<close>

definition resolve_at :: "nat \<Rightarrow> client \<Rightarrow> client" where
  "resolve_at t st =
     (case profileURL (advance t st) of
        Some url \<Rightarrow> myProfile (EndpointString ''edit'') None (advance t st)
      | None \<Rightarrow>
          snd (myProfile_response (EndpointString ''edit'') None None 302
                 (Some ''https://steamcommunity.com/id/gaben/'')
                 (myProfile (EndpointString ''edit'') None (advance t st))))"


definition run_resolved :: client where
  "run_resolved = resolve_at 0 (SteamCommunity default_options)"

definition run_login :: client where
  "run_login = snd (login (credentials ''gaben'' ''hunter2'') (advance 50000 run_resolved))"

definition run_resolved_again :: client where
  "run_resolved_again = resolve_at 55000 run_login"

text \<open>
  A client in whose jar the HTTP layer has stored a cookie from the response of a host
  outside the three domains.
\<close>

definition other_host_cookie :: client where
  "other_host_cookie =
     (SteamCommunity default_options)
       \<lparr>jar := jar (SteamCommunity default_options)
          @ [(''https://api.steampowered.com'',
              \<lparr>key = ''browserid'', cvalue = ''42'', secure = False, expired = False\<rparr>)]\<rparr>"

section \<open>Basic facts\<close>

lemma then_do_Normal [simp]: "then_do (Normal u, st) f = f st"
  by (simp add: then_do_def)

lemma then_do_Throws [simp]: "then_do (Throws e, st) f = (Throws e, st)"
  by (simp add: then_do_def)

lemma then_do_Unmodelled [simp]: "then_do (Unmodelled, st) f = (Unmodelled, st)"
  by (simp add: then_do_def)

lemma then_do_rel:
  assumes "R st (snd r)" and "\<And>s. R s (snd (f s))" and "\<And>a b c. R a b \<Longrightarrow> R b c \<Longrightarrow> R a c"
  shows "R st (snd (then_do r f))"
proof (cases "fst r")
  case (Normal u)
  have "R (snd r) (snd (f (snd r)))" by (rule assms(2))
  with assms(1) have "R st (snd (f (snd r)))" by (rule assms(3))
  with Normal show ?thesis by (simp add: then_do_def)
next
  case (Throws e)
  with assms(1) show ?thesis by (simp add: then_do_def)
next
  case Unmodelled
  with assms(1) show ?thesis by (simp add: then_do_def)
qed

subsection \<open>jar\<close>

lemma replicated_copies [simp]: "replicated (copies c @ ws) = replicated ws"
  by (simp add: copies_def)

lemma replicated_copies0 [simp]: "replicated (copies c)"
  by (simp add: copies_def)

lemma replicated_append: "replicated xs \<Longrightarrow> replicated ys \<Longrightarrow> replicated (xs @ ys)"
  by (induction xs rule: replicated.induct) auto

lemma jar_extends_refl [simp]: "jar_extends st st"
  by (simp add: jar_extends_def)

lemma jar_extends_iff: "jar_extends st st' \<longleftrightarrow> (\<exists>ws. jar st' = jar st @ ws \<and> replicated ws)"
proof
  assume "jar_extends st st'"
  then have "jar st' = jar st @ drop (length (jar st)) (jar st')" "replicated (drop (length (jar st)) (jar st'))"
    unfolding jar_extends_def by (metis append_take_drop_id, simp)
  then show "\<exists>ws. jar st' = jar st @ ws \<and> replicated ws" by blast
next
  assume "\<exists>ws. jar st' = jar st @ ws \<and> replicated ws"
  then show "jar_extends st st'" by (auto simp: jar_extends_def)
qed

lemma jar_extends_trans: "jar_extends a b \<Longrightarrow> jar_extends b c \<Longrightarrow> jar_extends a c"
  unfolding jar_extends_iff by (auto intro: replicated_append)

lemma jar_setCookie: "jar (setCookie c sec st) = jar st @ copies (c\<lparr>secure := truthy sec\<rparr>)"
  by (simp add: setCookie_def copies_def scheme_def Let_def)

lemma jar_extends_setCookie: "jar_extends st (setCookie c sec st)"
  unfolding jar_extends_iff by (rule exI [of _ "copies (c\<lparr>secure := truthy sec\<rparr>)"]) (simp add: jar_setCookie)

lemma jar_extends_same_jar: "jar st' = jar st \<Longrightarrow> jar_extends st st'"
  by (simp add: jar_extends_def)

lemma jar_extends_setCookie_of: "jar_extends st (snd (setCookie_of s sec st))"
  by (simp add: setCookie_of_def jar_extends_setCookie split: option.split res.split)

lemma jar_extends_setCookie_expired: "jar_extends st (snd (setCookie_expired s st))"
  by (simp add: setCookie_expired_def jar_extends_setCookie split: option.split res.split)

lemma jar_extends_then_do:
  "jar_extends st (snd r) \<Longrightarrow> (\<And>s. jar_extends s (snd (f s))) \<Longrightarrow> jar_extends st (snd (then_do r f))"
  by (rule then_do_rel [where R = jar_extends]) (auto intro: jar_extends_trans)

lemma jar_extends_deleteMobileCookies: "jar_extends st (snd (deleteMobileCookies st))"
  unfolding deleteMobileCookies_def
  by (intro jar_extends_then_do jar_extends_setCookie_expired)

lemma jar_emit [simp]: "jar (emit e st) = jar st"
  by (simp add: emit_def)

lemma jar_extends_setCookies: "jar_extends st (snd (setCookies cs st))"
proof (induction cs arbitrary: st)
  case Nil
  show ?case by simp
next
  case (Cons c cs)
  show ?case
  proof (cases "match_name c")
    case None
    then show ?thesis by simp
  next
    case (Some n)
    have a: "jar_extends st (snd (if n = ''steamLogin'' \<or> n = ''steamLoginSecure'' then
               (case match_digits c of
                  None \<Rightarrow> (Throws TypeError, st)
                | Some d \<Rightarrow>
                    (case new_SteamID (JStr d) of
                       Normal sid \<Rightarrow> (Normal (), st\<lparr>steamID := Some sid\<rparr>)
                     | Throws e \<Rightarrow> (Throws e, st)
                     | Unmodelled \<Rightarrow> (Unmodelled, st)))
             else (Normal (), st)))"
      by (auto simp: jar_extends_same_jar split: option.split res.split)
    show ?thesis
      unfolding setCookies.simps Some option.case
      by (intro jar_extends_then_do a jar_extends_setCookie_of Cons.IH)
  qed
qed


lemma jar_extends_emit: "jar_extends s (snd (Normal u, emit e s))"
  by (simp add: jar_extends_same_jar)

lemma jar_extends_login: "jar_extends st (snd (login d st))"
proof -
  have a: "\<And>s. jar_extends s (s\<lparr>profileURL := None\<rparr>)"
    by (simp add: jar_extends_same_jar)
  have b: "\<And>s. jar_extends s
      (snd (if \<not> truthy (disableMobile d) then
              then_do (setCookie_of ''mobileClientVersion=0 (2.1.3)'' JUndefined (s\<lparr>profileURL := None\<rparr>))
                (setCookie_of ''mobileClient=android'' JUndefined)
            else (Normal (), s\<lparr>profileURL := None\<rparr>)))"
    by (auto intro!: jar_extends_then_do jar_extends_setCookie_of
          jar_extends_trans [OF a jar_extends_setCookie_of] simp: a)
  have c: "jar_extends st
      (snd (if truthy (steamguard d) then
             (case steamguard d of
                JStr s \<Rightarrow>
                  setCookie_of
                    (''steamMachineAuth'' @ js_to_string (part (split_bars s) 0) @ ''=''
                       @ encodeURIComponent (part (split_bars s) 1))
                    (JBool True) st
              | _ \<Rightarrow> (Throws TypeError, st))
           else (Normal (), st)))"
    by (auto simp: jar_extends_setCookie_of split: jsval.split)
  show ?thesis
  proof (cases "\<not> truthy (accountName d) \<or> \<not> truthy (password d)")
    case True
    then show ?thesis by (simp add: login_def)
  next
    case False
    then show ?thesis
      unfolding login_def Let_def
      by (simp only: if_False) (intro jar_extends_then_do b c jar_extends_emit)
  qed
qed

lemma jar_extends_getrsakey: "jar_extends st (snd (login_getrsakey_response d rsa error body st))"
  unfolding login_getrsakey_response_def
  by (auto intro!: jar_extends_then_do jar_extends_deleteMobileCookies jar_extends_emit
        simp: jar_extends_same_jar split: option.split res.split)

lemma jar_extends_login_success: "jar_extends st (snd (login_success d env body st))"
  unfolding login_success_def Let_def
  by (intro jar_extends_then_do jar_extends_setCookie_of)
     (auto intro!: jar_extends_then_do jar_extends_setCookies jar_extends_emit
        simp: jar_extends_same_jar split: res.split option.split)

lemma jar_extends_dologin: "jar_extends st (snd (login_dologin_response d env error body st))"
  unfolding login_dologin_response_def
  by (intro jar_extends_then_do jar_extends_deleteMobileCookies)
     (auto intro!: jar_extends_login_success simp: jar_extends_same_jar emit_def
        split: option.split res.split bool.split)

lemma jar_extends_getSessionID: "jar_extends st (snd (getSessionID rnd host st))"
  unfolding getSessionID_def Let_def
  by (auto intro!: jar_extends_then_do jar_extends_setCookie_of simp: jar_extends_same_jar
        split: res.split option.split)

lemma Request_cookie_language:
  "Request_cookie ''Steam_Language=english''
     = Normal (Some \<lparr>key = ''Steam_Language'', cvalue = ''english'', secure = False, expired = False\<rparr>)"
  by code_simp

lemma Request_cookie_timezone:
  "Request_cookie ''timezoneOffset=0,0''
     = Normal (Some \<lparr>key = ''timezoneOffset'', cvalue = ''0,0'', secure = False, expired = False\<rparr>)"
  by code_simp

lemma replicated_new_client: "replicated (jar (SteamCommunity opts))"
  by (simp add: SteamCommunity_def setCookie_of_def Request_cookie_language Request_cookie_timezone
        setCookie_def copies_def scheme_def Let_def)

lemma length_copies [simp]: "length (copies c) = 3"
  by (simp add: copies_def)

lemma length_setCookie_of:
  "fst (setCookie_of s sec st) = Normal () \<Longrightarrow> length (jar (snd (setCookie_of s sec st))) = length (jar st) + 3"
  by (auto simp: setCookie_of_def jar_setCookie split: option.splits res.splits)

lemma setCookies_count:
  "fst (setCookies cs st) = Normal () \<Longrightarrow>
   length (jar (snd (setCookies cs st))) = length (jar st) + 3 * length cs"
proof (induction cs arbitrary: st)
  case Nil
  show ?case by simp
next
  case (Cons c cs)
  from Cons.prems obtain n where n: "match_name c = Some n"
    by (cases "match_name c") auto
  define r1 where "r1 = (if n = ''steamLogin'' \<or> n = ''steamLoginSecure'' then
               (case match_digits c of
                  None \<Rightarrow> (Throws TypeError, st)
                | Some d \<Rightarrow>
                    (case new_SteamID (JStr d) of
                       Normal sid \<Rightarrow> (Normal (), st\<lparr>steamID := Some sid\<rparr>)
                     | Throws e \<Rightarrow> (Throws e, st)
                     | Unmodelled \<Rightarrow> (Unmodelled, st)))
             else (Normal (), st))"
  have j1: "jar (snd r1) = jar st"
    by (auto simp: r1_def split: option.split res.split)
  define sec where "sec = JBool (starts_with ''steamMachineAuth'' n \<or> ends_with ''Secure'' n)"
  have eq: "setCookies (c # cs) st = then_do r1 (\<lambda>st1. then_do (setCookie_of c sec st1) (setCookies cs))"
    by (simp add: n r1_def sec_def)
  from Cons.prems eq have f1: "fst r1 = Normal ()"
    by (cases "fst r1") (auto simp: then_do_def)
  then have eq2: "setCookies (c # cs) st = then_do (setCookie_of c sec (snd r1)) (setCookies cs)"
    using eq by (simp add: then_do_def)
  from Cons.prems eq2 have f2: "fst (setCookie_of c sec (snd r1)) = Normal ()"
    by (cases "fst (setCookie_of c sec (snd r1))") (auto simp: then_do_def)
  then have eq3: "setCookies (c # cs) st = setCookies cs (snd (setCookie_of c sec (snd r1)))"
    using eq2 by (simp add: then_do_def)
  from Cons.prems eq3 have "fst (setCookies cs (snd (setCookie_of c sec (snd r1)))) = Normal ()"
    by simp
  from Cons.IH [OF this] length_setCookie_of [OF f2] j1 show ?case
    unfolding eq3 by simp
qed

lemma then_do_returns:
  "fst (then_do r f) = Normal v \<Longrightarrow> fst r = Normal () \<and> then_do r f = f (snd r)"
  by (cases r, cases "fst r") (auto simp: then_do_def)

subsection \<open>What an operation leaves alone\<close>

text \<open>
  An observation \<open>g\<close> of the client that the jar, the identity, the OAuth token and the
  trace do not enter is left alone by everything that writes cookies or reports results.
\<close>

lemma frame_then_do:
  assumes "g (snd r) = g st" and "\<And>s. g (snd (f s)) = g s"
  shows "g (snd (then_do r f)) = g st"
  using assms by (cases "fst r") (simp_all add: then_do_def)

lemma frame_setCookie_of:
  assumes "\<And>s c x. g (setCookie c x s) = g s"
  shows "g (snd (setCookie_of str sec st)) = g st"
  by (simp add: setCookie_of_def assms split: option.split res.split)

lemma frame_setCookie_expired:
  assumes "\<And>s c x. g (setCookie c x s) = g s"
  shows "g (snd (setCookie_expired str st)) = g st"
  by (simp add: setCookie_expired_def assms split: option.split res.split)

lemma frame_deleteMobileCookies:
  assumes "\<And>s c x. g (setCookie c x s) = g s"
  shows "g (snd (deleteMobileCookies st)) = g st"
  unfolding deleteMobileCookies_def
  by (intro frame_then_do frame_setCookie_expired assms)

lemma frame_setCookies:
  assumes "\<And>s c x. g (setCookie c x s) = g s" and "\<And>s i. g (s\<lparr>steamID := i\<rparr>) = g s"
  shows "g (snd (setCookies cs st)) = g st"
proof (induction cs arbitrary: st)
  case Nil
  show ?case by simp
next
  case (Cons c cs)
  show ?case
  proof (cases "match_name c")
    case None
    then show ?thesis by simp
  next
    case (Some n)
    have a: "g (snd (if n = ''steamLogin'' \<or> n = ''steamLoginSecure'' then
               (case match_digits c of
                  None \<Rightarrow> (Throws TypeError, st)
                | Some d \<Rightarrow>
                    (case new_SteamID (JStr d) of
                       Normal sid \<Rightarrow> (Normal (), st\<lparr>steamID := Some sid\<rparr>)
                     | Throws e \<Rightarrow> (Throws e, st)
                     | Unmodelled \<Rightarrow> (Unmodelled, st)))
             else (Normal (), st))) = g st"
      by (auto simp: assms(2) split: option.split res.split)
    show ?thesis
      unfolding setCookies.simps Some option.case
      by (intro frame_then_do a frame_setCookie_of assms(1) Cons.IH)
  qed
qed

lemma frame_login_success:
  assumes "\<And>s c x. g (setCookie c x s) = g s" and "\<And>s i. g (s\<lparr>steamID := i\<rparr>) = g s"
    and "\<And>s t. g (s\<lparr>oAuthToken := t\<rparr>) = g s" and "\<And>s e. g (emit e s) = g s"
  shows "g (snd (login_success d env body st)) = g st"
proof -
  have two: "\<And>s i t. g (s\<lparr>steamID := i, oAuthToken := t\<rparr>) = g s"
    by (simp add: assms(2) assms(3))
  show ?thesis
    unfolding login_success_def Let_def
    by (intro frame_then_do frame_setCookie_of assms(1))
       (auto intro!: frame_then_do frame_setCookies assms(1) assms(2) simp: two assms(4)
          split: res.split option.split)
qed

lemma frame_getrsakey:
  assumes "\<And>s c x. g (setCookie c x s) = g s" and "\<And>s e. g (emit e s) = g s"
  shows "g (snd (login_getrsakey_response d rsa error body st)) = g st"
  unfolding login_getrsakey_response_def
  by (auto intro!: frame_then_do frame_deleteMobileCookies assms(1) simp: assms(2)
        split: option.split res.split)

lemma frame_login:
  assumes "\<And>s c x. g (setCookie c x s) = g s" and "\<And>s e. g (emit e s) = g s"
    and "\<And>s. g (s\<lparr>profileURL := None\<rparr>) = g s"
  shows "g (snd (login d st)) = g st"
proof (cases "\<not> truthy (accountName d) \<or> \<not> truthy (password d)")
  case True
  then show ?thesis by (simp add: login_def)
next
  case False
  have c: "g (snd (if truthy (steamguard d) then
             (case steamguard d of
                JStr s \<Rightarrow>
                  setCookie_of
                    (''steamMachineAuth'' @ js_to_string (part (split_bars s) 0) @ ''=''
                       @ encodeURIComponent (part (split_bars s) 1))
                    (JBool True) st
              | _ \<Rightarrow> (Throws TypeError, st))
           else (Normal (), st))) = g st"
    by (auto simp: frame_setCookie_of [of g, OF assms(1)] split: jsval.split)
  have b: "\<And>s. g (snd (if \<not> truthy (disableMobile d) then
              then_do (setCookie_of ''mobileClientVersion=0 (2.1.3)'' JUndefined (s\<lparr>profileURL := None\<rparr>))
                (setCookie_of ''mobileClient=android'' JUndefined)
            else (Normal (), s\<lparr>profileURL := None\<rparr>))) = g s"
    by (auto intro!: frame_then_do simp: frame_setCookie_of [of g, OF assms(1)] assms(3))
  have e: "\<And>s u r. g (snd (Normal u, emit r s)) = g s"
    by (simp add: assms(2))
  from False show ?thesis
    unfolding login_def Let_def
    by (simp only: if_False) (intro frame_then_do b c e)
qed

lemma frame_dologin:
  assumes "\<And>s c x. g (setCookie c x s) = g s" and "\<And>s i. g (s\<lparr>steamID := i\<rparr>) = g s"
    and "\<And>s t. g (s\<lparr>oAuthToken := t\<rparr>) = g s" and "\<And>s e. g (emit e s) = g s"
    and "\<And>s x. g (s\<lparr>captchaGid := x\<rparr>) = g s"
  shows "g (snd (login_dologin_response d env error body st)) = g st"
  unfolding login_dologin_response_def
  by (intro frame_then_do frame_deleteMobileCookies assms(1))
     (auto simp: frame_login_success [of g, OF assms(1-4)] assms(4) assms(5)
        split: option.split res.split bool.split)

lemma frame_getSessionID:
  assumes "\<And>s c x. g (setCookie c x s) = g s"
  shows "g (snd (getSessionID rnd host st)) = g st"
  unfolding getSessionID_def Let_def
  by (auto intro!: frame_then_do simp: frame_setCookie_of [of g, OF assms] split: res.split option.split)

lemma setCookie_fields [simp]:
  "captchaGid (setCookie c x s) = captchaGid s" "profileURL (setCookie c x s) = profileURL s"
  "timers (setCookie c x s) = timers s" "clock (setCookie c x s) = clock s"
  "trace (setCookie c x s) = trace s" "steamID (setCookie c x s) = steamID s"
  "options (setCookie c x s) = options s"
  by (simp_all add: setCookie_def Let_def)

lemma emit_fields [simp]:
  "captchaGid (emit e s) = captchaGid s" "profileURL (emit e s) = profileURL s"
  "timers (emit e s) = timers s" "clock (emit e s) = clock s"
  "trace (emit e s) = trace s @ [e]" "steamID (emit e s) = steamID s"
  "options (emit e s) = options s"
  by (simp_all add: emit_def)

lemma login_keeps_captchaGid: "captchaGid (snd (login d st)) = captchaGid st"
  by (rule frame_login) simp_all

lemma login_keeps_timers: "timers (snd (login d st)) = timers st"
  by (rule frame_login) simp_all

lemma getrsakey_keeps_profileURL: "profileURL (snd (login_getrsakey_response d rsa error body st)) = profileURL st"
  by (rule frame_getrsakey) simp_all

lemma dologin_keeps_profileURL: "profileURL (snd (login_dologin_response d env error body st)) = profileURL st"
  by (rule frame_dologin) simp_all

subsection \<open>The sample runs, step by step\<close>

lemma match_profile_sample: "match_profile ''https://steamcommunity.com/id/gaben/'' = Some ''/id/gaben''"
  by code_simp

lemma login_credentials:
  "n \<noteq> [] \<Longrightarrow> p \<noteq> [] \<Longrightarrow>
   login (credentials n p) st =
     (Normal (), emit (HttpRequest
        \<lparr>req_method = ''POST'', req_uri = ''https://steamcommunity.com/login/getrsakey/'',
         req_form = Some [(''username'', JStr n)],
         req_headers = [(''Referer'', JStr ''https://steamcommunity.com/login'')],
         req_flags = [(''json'', JBool True)]\<rparr>) (st\<lparr>profileURL := None\<rparr>))"
  by (simp add: login_def credentials_def then_do_def mobileHeaders_def)

lemma run_resolved_fields:
  "profileURL run_resolved = Some ''/id/gaben'' \<and> timers run_resolved = [60000] \<and> clock run_resolved = 0
   \<and> resolutions (trace run_resolved) = 1"
  by (simp add: run_resolved_def resolve_at_def advance_def SteamCommunity_def then_do_def
        setCookie_of_def setCookie_def myProfile_def myProfile_response_def match_profile_sample
        completeRequest_def emit_def resolutions_def my_request_def Let_def
        Request_cookie_language Request_cookie_timezone del: match_profile.simps)

lemma run_login_fields:
  "profileURL run_login = None \<and> timers run_login = [60000] \<and> clock run_login = 50000
   \<and> resolutions (trace run_login) = 1"
  using run_resolved_fields
  by (simp add: run_login_def login_credentials advance_def emit_def resolutions_def my_request_def)

lemma run_resolved_again_fields:
  "profileURL run_resolved_again = Some ''/id/gaben'' \<and> timers run_resolved_again = [60000, 115000]
   \<and> clock run_resolved_again = 55000 \<and> resolutions (trace run_resolved_again) = 2"
  using run_login_fields
  by (simp add: run_resolved_again_def resolve_at_def advance_def myProfile_def myProfile_response_def
        match_profile_sample completeRequest_def emit_def resolutions_def my_request_def del: match_profile.simps)

subsection \<open>The handlers of login, case by case\<close>

lemma Request_cookie_mobile:
  "Request_cookie ''mobileClientVersion=''
     = Normal (Some \<lparr>key = ''mobileClientVersion'', cvalue = [], secure = False, expired = False\<rparr>)"
  "Request_cookie ''mobileClient=''
     = Normal (Some \<lparr>key = ''mobileClient'', cvalue = [], secure = False, expired = False\<rparr>)"
  "Request_cookie ''mobileClientVersion=0 (2.1.3)''
     = Normal (Some \<lparr>key = ''mobileClientVersion'', cvalue = ''0 (2.1.3)'', secure = False, expired = False\<rparr>)"
  "Request_cookie ''mobileClient=android''
     = Normal (Some \<lparr>key = ''mobileClient'', cvalue = ''android'', secure = False, expired = False\<rparr>)"
  by code_simp+

lemma deleteMobileCookies_returns: "fst (deleteMobileCookies st) = Normal ()"
  by (simp add: deleteMobileCookies_def setCookie_expired_def Request_cookie_mobile)

lemma deleteMobileCookies_writes:
  "deleteMobileCookies st =
     (Normal (),
      st\<lparr>jar := jar st
         @ copies \<lparr>key = ''mobileClientVersion'', cvalue = [], secure = False, expired = True\<rparr>
         @ copies \<lparr>key = ''mobileClient'', cvalue = [], secure = False, expired = True\<rparr>\<rparr>)"
  by (simp add: deleteMobileCookies_def setCookie_expired_def Request_cookie_mobile setCookie_def
        copies_def scheme_def Let_def)

lemma deleteMobileCookies_trace: "trace (snd (deleteMobileCookies st)) = trace st"
  by (rule frame_deleteMobileCookies) simp

lemma dologin_captcha:
  assumes "\<not> truthy (success body)" "\<not> truthy (emailauth_needed body)"
    "\<not> truthy (requires_twofactor body)" "truthy (captcha_needed body)"
    "message body = JStr m" "contains ''Please verify your humanity'' m"
  shows "login_dologin_response d env None body st =
     (Normal (),
      emit (Callback [CbErr (Err ''CAPTCHA''
          [(''captchaurl'', JStr (''https://steamcommunity.com/login/rendercaptcha/?gid=''
              @ js_to_string (captcha_gid body)))])])
        ((snd (deleteMobileCookies st))\<lparr>captchaGid := captcha_gid body\<rparr>))"
proof -
  obtain s1 where s1: "deleteMobileCookies st = (Normal (), s1)"
    using deleteMobileCookies_returns [of st] by (cases "deleteMobileCookies st") auto
  show ?thesis
    using assms by (simp add: login_dologin_response_def s1 message_match_def)
qed

lemma getrsakey_form:
  "truthy (publickey_mod kb) \<Longrightarrow> truthy (publickey_exp kb) \<Longrightarrow>
   rsa_setPublic rsa = Normal () \<Longrightarrow> rsa_encrypt rsa = Normal enc \<Longrightarrow>
   login_getrsakey_response d rsa None kb st =
     (Normal (), emit (HttpRequest
        \<lparr>req_method = ''POST'', req_uri = ''https://steamcommunity.com/login/dologin/'',
         req_form = Some (formObj d enc kb st), req_headers = mobileHeaders d st,
         req_flags = [(''json'', JBool True)]\<rparr>) st)"
  by (simp add: login_getrsakey_response_def)

lemma getrsakey_throws:
  "truthy (publickey_mod kb) \<Longrightarrow> truthy (publickey_exp kb) \<Longrightarrow>
   rsa_setPublic rsa = Throws e \<or> (rsa_setPublic rsa = Normal () \<and> rsa_encrypt rsa = Throws e) \<Longrightarrow>
   login_getrsakey_response d rsa None kb st = (Throws e, st)"
  by (auto simp: login_getrsakey_response_def)

lemma formObj_captchagid: "map_of (formObj d enc kb st) ''captchagid'' = Some (captchaGid st)"
  by (simp add: formObj_def)

lemma frame_mobile_cookies:
  assumes "\<And>s c x. g (setCookie c x s) = g s"
  shows "g (snd (if \<not> truthy (disableMobile d) then
                  then_do (setCookie_of ''mobileClientVersion=0 (2.1.3)'' JUndefined s0)
                    (setCookie_of ''mobileClient=android'' JUndefined)
                else (Normal (), s0))) = g s0"
proof (cases "truthy (disableMobile d)")
  case True
  then show ?thesis by simp
next
  case False
  have "g (snd (then_do (setCookie_of ''mobileClientVersion=0 (2.1.3)'' JUndefined s0)
                    (setCookie_of ''mobileClient=android'' JUndefined))) = g s0"
    by (intro frame_then_do frame_setCookie_of assms)
  with False show ?thesis by simp
qed

lemma login_returns_request:
  assumes "fst (login d st) = Normal ()"
  shows "\<exists>s. profileURL s = None \<and> trace s = trace st \<and>
     login d st = (Normal (), emit (HttpRequest
        \<lparr>req_method = ''POST'', req_uri = ''https://steamcommunity.com/login/getrsakey/'',
         req_form = Some [(''username'', accountName d)], req_headers = mobileHeaders d s,
         req_flags = [(''json'', JBool True)]\<rparr>) s)"
proof -
  have ok: "\<not> (\<not> truthy (accountName d) \<or> \<not> truthy (password d))"
  proof
    assume "\<not> truthy (accountName d) \<or> \<not> truthy (password d)"
    then have "fst (login d st) = Throws (ThrownError ''Missing either accountName or password to login; both are needed'')"
      by (simp add: login_def)
    with assms show False by simp
  qed
  define r1 where "r1 = (if truthy (steamguard d) then
             (case steamguard d of
                JStr s \<Rightarrow>
                  setCookie_of
                    (''steamMachineAuth'' @ js_to_string (part (split_bars s) 0) @ ''=''
                       @ encodeURIComponent (part (split_bars s) 1))
                    (JBool True) st
              | _ \<Rightarrow> (Throws TypeError, st))
           else (Normal (), st))"
  define r2 where "r2 = (if \<not> truthy (disableMobile d) then
                  then_do (setCookie_of ''mobileClientVersion=0 (2.1.3)'' JUndefined ((snd r1)\<lparr>profileURL := None\<rparr>))
                    (setCookie_of ''mobileClient=android'' JUndefined)
                else (Normal (), (snd r1)\<lparr>profileURL := None\<rparr>))"
  define req where "req = (\<lambda>s. HttpRequest
        \<lparr>req_method = ''POST'', req_uri = ''https://steamcommunity.com/login/getrsakey/'',
         req_form = Some [(''username'', accountName d)], req_headers = mobileHeaders d s,
         req_flags = [(''json'', JBool True)]\<rparr>)"
  have L: "login d st = then_do r1 (\<lambda>st1. then_do
      (if \<not> truthy (disableMobile d) then
         then_do (setCookie_of ''mobileClientVersion=0 (2.1.3)'' JUndefined (st1\<lparr>profileURL := None\<rparr>))
           (setCookie_of ''mobileClient=android'' JUndefined)
       else (Normal (), st1\<lparr>profileURL := None\<rparr>))
      (\<lambda>st3. (Normal (), emit (req st3) st3)))"
    using ok by (simp add: login_def r1_def req_def Let_def)
  from assms have "fst (then_do r1 (\<lambda>st1. then_do
      (if \<not> truthy (disableMobile d) then
         then_do (setCookie_of ''mobileClientVersion=0 (2.1.3)'' JUndefined (st1\<lparr>profileURL := None\<rparr>))
           (setCookie_of ''mobileClient=android'' JUndefined)
       else (Normal (), st1\<lparr>profileURL := None\<rparr>))
      (\<lambda>st3. (Normal (), emit (req st3) st3)))) = Normal ()"
    by (simp only: L)
  from then_do_returns [OF this] have L2: "login d st = then_do r2 (\<lambda>st3. (Normal (), emit (req st3) st3))"
    by (simp only: L r2_def)
  with assms have "fst (then_do r2 (\<lambda>st3. (Normal (), emit (req st3) st3))) = Normal ()"
    by simp
  from then_do_returns [OF this] have L3: "login d st = (Normal (), emit (req (snd r2)) (snd r2))"
    by (simp only: L2)
  have p1: "profileURL (snd r2) = None"
    unfolding r2_def using frame_mobile_cookies [of profileURL d "(snd r1)\<lparr>profileURL := None\<rparr>"]
    by simp
  have t1: "trace (snd r1) = trace st"
    unfolding r1_def
    by (auto simp: frame_setCookie_of [of trace, OF setCookie_fields(5)] split: jsval.split)
  have t2: "trace (snd r2) = trace st"
    unfolding r2_def using frame_mobile_cookies [of trace d "(snd r1)\<lparr>profileURL := None\<rparr>"] t1
    by simp
  from L3 p1 t2 show ?thesis
    unfolding req_def by blast
qed

lemma login_returns:
  "truthy (accountName d) \<Longrightarrow> truthy (password d) \<Longrightarrow> \<not> truthy (steamguard d) \<Longrightarrow>
   fst (login d st) = Normal ()"
  by (simp add: login_def setCookie_of_def Request_cookie_mobile Let_def)

lemma login_outcomes:
  "(\<not> truthy (success body) \<and> truthy (emailauth_needed body)
      \<longrightarrow> login_dologin_response d env None body st
          = (Normal (), emit (Callback [CbErr (Err ''SteamGuard'' [(''emaildomain'', emaildomain body)])])
               (snd (deleteMobileCookies st))))
   \<and> (\<not> truthy (success body) \<and> \<not> truthy (emailauth_needed body) \<and> truthy (requires_twofactor body)
      \<longrightarrow> login_dologin_response d env None body st
          = (Normal (), emit (Callback [CbErr (Err ''SteamGuardMobile'' [])]) (snd (deleteMobileCookies st))))
   \<and> (\<not> truthy (success body) \<and> \<not> truthy (emailauth_needed body) \<and> \<not> truthy (requires_twofactor body)
        \<and> truthy (captcha_needed body) \<and> message body = JStr m
        \<and> contains ''Please verify your humanity'' m
      \<longrightarrow> login_dologin_response d env None body st
          = (Normal (),
             emit (Callback [CbErr (Err ''CAPTCHA''
                 [(''captchaurl'', JStr (''https://steamcommunity.com/login/rendercaptcha/?gid=''
                     @ js_to_string (captcha_gid body)))])])
               ((snd (deleteMobileCookies st))\<lparr>captchaGid := captcha_gid body\<rparr>)))
   \<and> (\<not> truthy (success body) \<and> \<not> truthy (emailauth_needed body) \<and> \<not> truthy (requires_twofactor body)
        \<and> truthy (captcha_needed body) \<and> message body = JStr m
        \<and> \<not> contains ''Please verify your humanity'' m
      \<longrightarrow> login_dologin_response d env None body st
          = (Normal (),
             emit (Callback [CbErr (Err (if m = [] then ''Unknown error'' else m) [])])
               (snd (deleteMobileCookies st))))
   \<and> (\<not> truthy (success body) \<and> \<not> truthy (emailauth_needed body) \<and> \<not> truthy (requires_twofactor body)
        \<and> \<not> truthy (captcha_needed body)
      \<longrightarrow> login_dologin_response d env None body st
          = (Normal (),
             emit (Callback [CbErr (Err (js_to_string (js_or (message body) (JStr ''Unknown error''))) [])])
               (snd (deleteMobileCookies st))))
   \<and> (\<not> truthy (success body) \<and> \<not> truthy (emailauth_needed body) \<and> \<not> truthy (requires_twofactor body)
        \<and> truthy (captcha_needed body) \<and> (\<forall>s. message body \<noteq> JStr s)
      \<longrightarrow> login_dologin_response d env None body st = (Throws TypeError, snd (deleteMobileCookies st)))
   \<and> (truthy (success body) \<and> \<not> truthy (disableMobile d) \<and> \<not> truthy (oauth body)
      \<longrightarrow> login_dologin_response d env None body st
          = (Normal (), emit (Callback [CbErr (Err ''Malformed response'' [])]) (snd (deleteMobileCookies st))))
   \<and> (truthy (success body) \<and> (truthy (disableMobile d) \<or> truthy (oauth body))
      \<longrightarrow> login_dologin_response d env None body st = login_success d env body (snd (deleteMobileCookies st)))"
proof -
  obtain s1 where s1: "deleteMobileCookies st = (Normal (), s1)"
    using deleteMobileCookies_returns [of st] by (cases "deleteMobileCookies st") auto
  show ?thesis
    by (auto simp: login_dologin_response_def s1 message_match_def js_or_def split: jsval.split)
qed

subsection \<open>Sample cookie strings\<close>

lemma match_name_samples:
  "match_name ''steamLoginSecure=76561198000000000%7C%7CAB'' = Some ''steamLoginSecure''"
  "match_name ''sessionid=abc'' = Some ''sessionid''"
  "match_digits ''steamLoginSecure=76561198000000000%7C%7CAB'' = Some ''76561198000000000''"
  "Request_cookie ''steamLoginSecure=76561198000000000%7C%7CAB''
     = Normal (Some \<lparr>key = ''steamLoginSecure'', cvalue = ''76561198000000000%7C%7CAB'', secure = False, expired = False\<rparr>)"
  "Request_cookie ''sessionid=abc'' = Normal (Some \<lparr>key = ''sessionid'', cvalue = ''abc'', secure = False, expired = False\<rparr>)"
  "new_SteamID (JStr ''76561198000000000'') = Normal ''76561198000000000''"
  by code_simp+

lemma setCookies_sample:
  "setCookies [''steamLoginSecure=76561198000000000%7C%7CAB'', ''sessionid=abc''] st
     = (Normal (),
        st\<lparr>steamID := Some ''76561198000000000'',
           jar := jar st
             @ copies \<lparr>key = ''steamLoginSecure'', cvalue = ''76561198000000000%7C%7CAB'', secure = True, expired = False\<rparr>
             @ copies \<lparr>key = ''sessionid'', cvalue = ''abc'', secure = False, expired = False\<rparr>\<rparr>)"
  by (simp add: match_name_samples setCookie_of_def setCookie_def copies_def scheme_def
        starts_with_def ends_with_def Let_def
        del: match_digits.simps)

lemma split_lines_one_line:
  "\<forall>c\<in>set s. \<not> is_line_terminator c \<Longrightarrow> split_lines s = [s]"
  by (induction s) (simp_all add: cons_first_def)

lemma name_in_line_last_equals:
  assumes "name \<noteq> []" and "CHR ''='' \<notin> set v"
  shows "name_in_line (name @ CHR ''='' # v) = Some name"
proof -
  have "\<And>x. x \<in> set (rev v) \<Longrightarrow> x \<noteq> CHR ''=''"
    using assms(2) by auto
  then have "dropWhile (\<lambda>c. c \<noteq> CHR ''='') (rev v @ CHR ''='' # rev name)
      = dropWhile (\<lambda>c. c \<noteq> CHR ''='') (CHR ''='' # rev name)"
    by (rule dropWhile_append2)
  then have "dropWhile (\<lambda>c. c \<noteq> CHR ''='') (rev v @ CHR ''='' # rev name) = CHR ''='' # rev name"
    by simp
  then have "length (dropWhile (\<lambda>c. c \<noteq> CHR ''='') (rev (name @ CHR ''='' # v))) = Suc (length name)"
    by simp
  with assms(1) show ?thesis
    by (cases name) (simp_all add: name_in_line_def Let_def)
qed

lemma match_name_one_line:
  assumes "name \<noteq> []" and "CHR ''='' \<notin> set v"
    and "\<forall>c\<in>set (name @ v). \<not> is_line_terminator c"
  shows "match_name (name @ CHR ''='' # v) = Some name"
proof -
  have "\<forall>c\<in>set (name @ CHR ''='' # v). \<not> is_line_terminator c"
    using assms(3) by (auto simp: is_line_terminator_def)
  then have "split_lines (name @ CHR ''='' # v) = [name @ CHR ''='' # v]"
    by (rule split_lines_one_line)
  then show ?thesis
    by (simp add: match_name_def name_in_line_last_equals [OF assms(1,2)])
qed

lemma match_digits_after_name:
  assumes "CHR ''='' \<notin> set name" and "ds \<noteq> []" and "list_all is_digit ds"
    and "rest = [] \<or> \<not> is_digit (hd rest)"
  shows "match_digits (name @ CHR ''='' # ds @ rest) = Some ds"
proof -
  have "\<And>x. x \<in> set ds \<Longrightarrow> is_digit x"
    using assms(3) by (simp add: list_all_iff)
  then have "takeWhile is_digit (ds @ rest) = ds @ takeWhile is_digit rest"
    by (rule takeWhile_append2)
  moreover have "takeWhile is_digit rest = []"
    using assms(4) by (cases rest) auto
  ultimately have t: "takeWhile is_digit (ds @ rest) = ds"
    by simp
  from assms(1) show ?thesis
    by (induction name) (auto simp: t assms(2))
qed

text \<open>
  A cookie string with a single \<open>=\<close> on a single line: the name that \<open>setCookies\<close> reads is
  the cookie's name, a login cookie sets the identity from the digits its value starts
  with (a number below \<open>2^64\<close>), and the cookie is written as secure exactly when its name starts with
  \<open>steamMachineAuth\<close> or ends with \<open>Secure\<close>.
\<close>

lemma setCookies_one_equals_sign:
  assumes "name \<noteq> []" and "CHR ''='' \<notin> set name" and "CHR ''='' \<notin> set v"
    and "\<forall>c\<in>set (name @ v). \<not> is_line_terminator c"
    and "Request_cookie (name @ CHR ''='' # v) = Normal (Some ck)"
  shows "name \<noteq> ''steamLogin'' \<and> name \<noteq> ''steamLoginSecure'' \<longrightarrow>
           setCookies [name @ CHR ''='' # v] st
             = (Normal (),
                setCookie ck (JBool (starts_with ''steamMachineAuth'' name \<or> ends_with ''Secure'' name)) st)"
    and "(name = ''steamLogin'' \<or> name = ''steamLoginSecure'') \<and> v = ds @ rest \<and> ds \<noteq> []
           \<and> list_all is_digit ds \<and> (rest = [] \<or> \<not> is_digit (hd rest))
           \<and> fits_uint64 (canonical_digits ds) \<longrightarrow>
           setCookies [name @ CHR ''='' # v] st
             = (Normal (),
                setCookie ck (JBool (name = ''steamLoginSecure'')) (st\<lparr>steamID := Some (canonical_digits ds)\<rparr>))"
proof -
  note n = match_name_one_line [OF assms(1,3,4)]
  show "name \<noteq> ''steamLogin'' \<and> name \<noteq> ''steamLoginSecure'' \<longrightarrow>
           setCookies [name @ CHR ''='' # v] st
             = (Normal (),
                setCookie ck (JBool (starts_with ''steamMachineAuth'' name \<or> ends_with ''Secure'' name)) st)"
    by (simp add: n setCookie_of_def assms(5))
  show "(name = ''steamLogin'' \<or> name = ''steamLoginSecure'') \<and> v = ds @ rest \<and> ds \<noteq> []
           \<and> list_all is_digit ds \<and> (rest = [] \<or> \<not> is_digit (hd rest))
           \<and> fits_uint64 (canonical_digits ds) \<longrightarrow>
           setCookies [name @ CHR ''='' # v] st
             = (Normal (),
                setCookie ck (JBool (name = ''steamLoginSecure'')) (st\<lparr>steamID := Some (canonical_digits ds)\<rparr>))"
  proof
    assume h: "(name = ''steamLogin'' \<or> name = ''steamLoginSecure'') \<and> v = ds @ rest \<and> ds \<noteq> []
           \<and> list_all is_digit ds \<and> (rest = [] \<or> \<not> is_digit (hd rest))
           \<and> fits_uint64 (canonical_digits ds)"
    then have d: "match_digits (name @ CHR ''='' # v) = Some ds"
      using match_digits_after_name [OF assms(2), of ds rest] by simp
    from h have s: "new_SteamID (JStr ds) = Normal (canonical_digits ds)"
      by (simp add: new_SteamID_def)
    from h have flag: "(starts_with ''steamMachineAuth'' name \<or> ends_with ''Secure'' name)
        = (name = ''steamLoginSecure'')"
      by (auto simp: starts_with_def ends_with_def)
    from h show "setCookies [name @ CHR ''='' # v] st
             = (Normal (),
                setCookie ck (JBool (name = ''steamLoginSecure'')) (st\<lparr>steamID := Some (canonical_digits ds)\<rparr>))"
      using n d s flag assms(5) by (auto simp: setCookie_of_def simp del: match_digits.simps)
  qed
qed

subsection \<open>The profile URL, step by step\<close>







lemma myProfile_response_found:
  "match_profile loc = Some p \<Longrightarrow>
   myProfile_response ep form None 302 (Some loc) st
     = (Normal (), completeRequest ep form p (st\<lparr>profileURL := Some p, timers := timers st @ [clock st + 60000]\<rparr>))"
  by (simp add: myProfile_response_def)

lemma completeRequest_fields [simp]:
  "profileURL (completeRequest ep form u st) = profileURL st"
  "timers (completeRequest ep form u st) = timers st"
  "clock (completeRequest ep form u st) = clock st"
  by (simp_all add: completeRequest_def)

lemma advance_keeps:
  "\<forall>due\<in>set (timers st). t < due \<Longrightarrow> profileURL (advance t st) = profileURL st"
  by (auto simp: advance_def filter_empty_conv)

lemma advance_evicts:
  "due \<in> set (timers st) \<Longrightarrow> due \<le> t \<Longrightarrow> profileURL (advance t st) = None"
  by (auto simp: advance_def filter_empty_conv)

lemma advance_fields [simp]:
  "trace (advance t st) = trace st" "timers (advance t st) = filter (\<lambda>due. \<not> due \<le> t) (timers st)"
  by (simp_all add: advance_def)




subsection \<open>The session id\<close>

lemma length_hex_byte: "length (hex_byte b) = 2"
  by (simp add: hex_byte_def)

lemma generateSessionID_length: "length (generateSessionID rnd) = 24"
  by (simp add: generateSessionID_def length_concat comp_def length_hex_byte sum_list_triv)

lemma hex_lower_digit: "hex_lower d \<in> set ''0123456789abcdef''"
  unfolding hex_lower_def by (rule nth_mem) simp

lemma generateSessionID_hex: "set (generateSessionID rnd) \<subseteq> set ''0123456789abcdef''"
proof -
  define S where "S = set ''0123456789abcdef''"
  have d: "\<And>n. hex_lower n \<in> S"
    unfolding S_def by (rule hex_lower_digit)
  have "set (generateSessionID rnd) \<subseteq> S"
    by (auto simp: generateSessionID_def hex_byte_def d)
  then show ?thesis by (simp only: S_def)
qed

lemma getSessionID_twice_sample:
  "fst (getSessionID (env_random sample_env) None (SteamCommunity default_options))
     = Normal ''00112233445566778899aabb''
   \<and> fst (getSessionID (\<lambda>i. 0) None
        (snd (getSessionID (env_random sample_env) None (SteamCommunity default_options))))
     = Normal ''00112233445566778899aabb''"
  by code_simp

lemma getSessionID_found:
  "find_sessionid (split_char CHR '';'' (getCookieString (jar st)
       (case host of None \<Rightarrow> ''http://steamcommunity.com'' | Some h \<Rightarrow> h))) = Normal (Some v)
   \<Longrightarrow> getSessionID rnd host st = (decodeURIComponent (JStr v), st)"
  by (simp add: getSessionID_def Let_def)

lemma dropWhile_head: "s \<noteq> [] \<Longrightarrow> \<not> P (hd s) \<Longrightarrow> dropWhile P s = s"
  by (cases s) simp_all

lemma trim_unchanged:
  assumes "s \<noteq> []" and "\<not> is_space (hd s)" and "\<not> is_space (last s)"
  shows "trim s = s"
proof -
  have a: "dropWhile is_space s = s"
    using assms(1,2) by (rule dropWhile_head)
  have "rev s \<noteq> []" "\<not> is_space (hd (rev s))"
    using assms(1,3) by (simp_all add: hd_rev)
  then have "dropWhile is_space (rev s) = rev s"
    by (rule dropWhile_head)
  with a show ?thesis by (simp add: trim_def)
qed

lemma takeWhile_all: "\<forall>c\<in>set s. P c \<Longrightarrow> takeWhile P s = s"
  by (induction s) simp_all

lemma hex_chars:
  assumes "set h \<subseteq> set ''0123456789abcdef''" and "c \<in> set h"
  shows "\<not> is_space c" "c \<noteq> CHR '';''" "c \<noteq> CHR ''=''" "c \<noteq> CHR ''%''" "\<not> is_line_terminator c"
    "\<not> is_terminator c" "\<not> is_control c"
  using assms by (auto simp: is_space_def is_line_terminator_def is_terminator_def is_control_def)

lemma trim_Nil [simp]: "trim [] = []"
  by (simp add: trim_def)

lemma Request_cookie_sessionid:
  assumes "set h \<subseteq> set ''0123456789abcdef''" and "h \<noteq> []"
  shows "Request_cookie (''sessionid='' @ h)
     = Normal (Some \<lparr>key = ''sessionid'', cvalue = h, secure = False, expired = False\<rparr>)"
proof -
  have l: "last (''sessionid='' @ h) = last h" "hd h \<in> set h" "last h \<in> set h"
    using assms(2) by simp_all
  have t1: "trim (''sessionid='' @ h) = ''sessionid='' @ h"
    using hex_chars(1) [OF assms(1) l(3)] l(1)
    by (intro trim_unchanged) (simp_all add: is_space_def)
  have t2: "trim h = h"
    using hex_chars(1) [OF assms(1) l(2)] hex_chars(1) [OF assms(1) l(3)] assms(2)
    by (intro trim_unchanged)
  have t3: "trim ''sessionid'' = ''sessionid''"
    by (intro trim_unchanged) (simp_all add: is_space_def)
  have semi: "takeWhile (\<lambda>c. c \<noteq> CHR '';'') h = h"
    using hex_chars(2) [OF assms(1)] by (intro takeWhile_all) blast
  have pair: "takeWhile (\<lambda>c. c \<noteq> CHR '';'') (''sessionid='' @ h) = ''sessionid='' @ h"
    using semi by simp
  have tm: "\<not> list_ex is_terminator (''sessionid='' @ h)"
    using hex_chars(6) [OF assms(1)] by (auto simp: list_ex_iff is_terminator_def)
  have ctl: "\<not> list_ex is_control ''sessionid''" "\<not> list_ex is_control h"
    using hex_chars(7) [OF assms(1)] by (auto simp: list_ex_iff is_control_def)
  have q: "take 1 (''sessionid='' @ h) \<noteq> ''=''" "take 2 (''sessionid='' @ h) \<noteq> ''==''"
    "CHR ''='' \<in> set (''sessionid='' @ h)"
    "takeWhile (\<lambda>c. c \<noteq> CHR ''='') (''sessionid='' @ h) = ''sessionid''"
    "drop 1 (dropWhile (\<lambda>c. c \<noteq> CHR ''='') (''sessionid='' @ h)) = h"
    "drop (Suc (length (''sessionid='' @ h))) (''sessionid='' @ h) = []"
    by simp_all
  show ?thesis
    unfolding Request_cookie_def t1 pair Let_def
    by (simp only: q tm ctl t2 t3 trim_Nil if_True if_False simp_thms)
qed

lemma getSessionID_fresh:
  assumes "find_sessionid (split_char CHR '';'' (getCookieString (jar st)
       (case host of None \<Rightarrow> ''http://steamcommunity.com'' | Some h \<Rightarrow> h))) = Normal None"
  shows "getSessionID rnd host st
     = (Normal (generateSessionID rnd),
        st\<lparr>jar := jar st @ copies \<lparr>key = ''sessionid'', cvalue = generateSessionID rnd,
                                    secure = False, expired = False\<rparr>\<rparr>)"
proof -
  have "generateSessionID rnd \<noteq> []"
    using generateSessionID_length [of rnd] by auto
  from Request_cookie_sessionid [OF generateSessionID_hex this] assms show ?thesis
    by (simp add: getSessionID_def Let_def setCookie_of_def setCookie_def copies_def scheme_def
          del: append.simps)
qed

lemma split_char_nonempty [simp]: "split_char d s \<noteq> []"
  by (induction s) (simp_all add: cons_first_def split: list.split)

lemma cons_first_append: "ws \<noteq> [] \<Longrightarrow> cons_first c (ws @ vs) = cons_first c ws @ vs"
  by (cases ws) (simp_all add: cons_first_def)

lemma split_char_append: "split_char d (a @ d # b) = split_char d a @ split_char d b"
  by (induction a) (simp_all add: cons_first_append)

lemma split_char_no_separator: "d \<notin> set s \<Longrightarrow> split_char d s = [s]"
  by (induction s) (auto simp: cons_first_def)

lemma find_sessionid_append:
  "find_sessionid xs = Normal None \<Longrightarrow> find_sessionid (xs @ ys) = find_sessionid ys"
  by (induction xs) (auto split: option.splits if_splits)

lemma find_sessionid_prefix:
  "find_sessionid (xs @ ys) = Normal None \<Longrightarrow> find_sessionid xs = Normal None"
  by (induction xs) (auto split: option.splits if_splits)

lemma join_Cons: "join sep (x # xs) = (if xs = [] then x else x @ sep @ join sep xs)"
  by (cases xs) simp_all

lemma join_append:
  "xs \<noteq> [] \<Longrightarrow> ys \<noteq> [] \<Longrightarrow> join sep (xs @ ys) = join sep xs @ sep @ join sep ys"
  by (induction sep xs rule: join.induct) (simp_all add: join_Cons)

lemma filter_put_other:
  "h' \<noteq> url_host url \<Longrightarrow> filter (visible url) (put_cookie h' c S) = filter (visible url) S"
  by (induction S) (auto simp: visible_def)

text \<open>
  Putting a cookie that is not secure for the host of the URL: it is visible afterwards,
  and the cookies visible before it are those that were visible before it was put.
\<close>

lemma filter_put_same:
  assumes "\<not> secure c"
  shows "\<exists>xs ys zs. filter (visible url) (put_cookie (url_host url) c S) = xs @ (url_host url, c) # ys
            \<and> filter (visible url) S = xs @ zs"
proof (induction S)
  case Nil
  have "filter (visible url) (put_cookie (url_host url) c []) = [] @ (url_host url, c) # []"
    using assms by (simp add: visible_def)
  then show ?case by fastforce
next
  case (Cons e S)
  then obtain xs ys zs where
    ih: "filter (visible url) (put_cookie (url_host url) c S) = xs @ (url_host url, c) # ys"
        "filter (visible url) S = xs @ zs"
    by blast
  obtain h0 c0 where e: "e = (h0, c0)" by (cases e)
  show ?case
  proof (cases "h0 = url_host url \<and> key c0 = key c")
    case True
    have "filter (visible url) (put_cookie (url_host url) c (e # S))
        = [] @ (url_host url, c) # filter (visible url) S"
      using True assms by (simp add: e visible_def)
    moreover have "filter (visible url) (e # S) = [] @ filter (visible url) (e # S)"
      by simp
    ultimately show ?thesis by blast
  next
    case False
    then have p: "put_cookie (url_host url) c (e # S) = e # put_cookie (url_host url) c S"
      by (auto simp: e)
    show ?thesis
    proof (cases "visible url e")
      case True
      have "filter (visible url) (put_cookie (url_host url) c (e # S)) = (e # xs) @ (url_host url, c) # ys"
        using True by (simp add: p ih(1))
      moreover have "filter (visible url) (e # S) = (e # xs) @ zs"
        using True by (simp add: ih(2))
      ultimately show ?thesis by blast
    next
      case False
      have "filter (visible url) (put_cookie (url_host url) c (e # S)) = xs @ (url_host url, c) # ys"
        using False by (simp add: p ih(1))
      moreover have "filter (visible url) (e # S) = xs @ zs"
        using False by (simp add: ih(2))
      ultimately show ?thesis by blast
    qed
  qed
qed

lemma url_host_domains:
  "url_host ''http://steamcommunity.com'' = ''steamcommunity.com''"
  "url_host ''http://store.steampowered.com'' = ''store.steampowered.com''"
  "url_host ''http://help.steampowered.com'' = ''help.steampowered.com''"
  by code_simp+

lemma jar_store_copies:
  "\<not> secure c \<Longrightarrow> \<not> expired c \<Longrightarrow>
   jar_store (j @ copies c)
     = put_cookie ''help.steampowered.com'' c
         (put_cookie ''store.steampowered.com'' c
           (put_cookie ''steamcommunity.com'' c (jar_store j)))"
  by (simp add: jar_store_def copies_def scheme_def store_write_def url_host_domains)

lemma visible_after_copies:
  assumes "url_host url = ''steamcommunity.com'' \<or> url_host url = ''store.steampowered.com''
      \<or> url_host url = ''help.steampowered.com''"
    and "\<not> secure c" and "\<not> expired c"
  shows "\<exists>xs ys zs. filter (visible url) (jar_store (j @ copies c)) = xs @ (url_host url, c) # ys
            \<and> filter (visible url) (jar_store j) = xs @ zs"
proof -
  from assms(1) consider
      (a) "url_host url = ''steamcommunity.com''"
    | (b) "url_host url = ''store.steampowered.com''"
    | (c) "url_host url = ''help.steampowered.com''"
    by blast
  then show ?thesis
  proof cases
    case a
    have "filter (visible url) (jar_store (j @ copies c))
        = filter (visible url) (put_cookie (url_host url) c (jar_store j))"
      using a by (simp add: jar_store_copies [OF assms(2,3)] filter_put_other)
    with filter_put_same [OF assms(2), of url "jar_store j"] show ?thesis by simp
  next
    case b
    have "filter (visible url) (jar_store (j @ copies c))
        = filter (visible url) (put_cookie (url_host url) c (put_cookie ''steamcommunity.com'' c (jar_store j)))"
      using b by (simp add: jar_store_copies [OF assms(2,3)] filter_put_other)
    moreover have "filter (visible url) (put_cookie ''steamcommunity.com'' c (jar_store j))
        = filter (visible url) (jar_store j)"
      using b by (simp add: filter_put_other)
    ultimately show ?thesis
      using filter_put_same [OF assms(2), of url "put_cookie ''steamcommunity.com'' c (jar_store j)"]
      by simp
  next
    case c
    have "filter (visible url) (jar_store (j @ copies c))
        = filter (visible url) (put_cookie (url_host url) c
            (put_cookie ''store.steampowered.com'' c (put_cookie ''steamcommunity.com'' c (jar_store j))))"
      using c by (simp add: jar_store_copies [OF assms(2,3)])
    moreover have "filter (visible url)
          (put_cookie ''store.steampowered.com'' c (put_cookie ''steamcommunity.com'' c (jar_store j)))
        = filter (visible url) (jar_store j)"
      using c by (simp add: filter_put_other)
    ultimately show ?thesis
      using filter_put_same [OF assms(2), of url
          "put_cookie ''store.steampowered.com'' c (put_cookie ''steamcommunity.com'' c (jar_store j))"]
      by simp
  qed
qed

lemma decode_string_plain: "CHR ''%'' \<notin> set s \<Longrightarrow> decode_string s = Normal s"
  by (induction s) auto

lemma find_sessionid_piece:
  assumes "set h \<subseteq> set ''0123456789abcdef''" and "h \<noteq> []"
  shows "find_sessionid ((''sessionid='' @ h) # rest) = Normal (Some h)"
    and "find_sessionid ((CHR '' '' # ''sessionid='' @ h) # rest) = Normal (Some h)"
proof -
  have l: "last (''sessionid='' @ h) = last h" "last h \<in> set h"
    using assms(2) by simp_all
  have t0: "trim (''sessionid='' @ h) = ''sessionid='' @ h"
    using hex_chars(1) [OF assms(1) l(2)] l(1)
    by (intro trim_unchanged) (simp_all add: is_space_def)
  moreover have "trim (CHR '' '' # ''sessionid='' @ h) = trim (''sessionid='' @ h)"
    by (simp add: trim_def is_space_def)
  ultimately have t: "trim (CHR '' '' # ''sessionid='' @ h) = ''sessionid='' @ h"
    by simp
  have lt: "takeWhile (\<lambda>x. \<not> is_line_terminator x) h = h"
    using hex_chars(5) [OF assms(1)] by (intro takeWhile_all) blast
  have m: "match_pair (''sessionid='' @ h) = Some (''sessionid'', h)"
    by (simp add: match_pair_def lt assms(2))
  show "find_sessionid ((''sessionid='' @ h) # rest) = Normal (Some h)"
    by (simp add: t0 m del: append.simps)
  show "find_sessionid ((CHR '' '' # ''sessionid='' @ h) # rest) = Normal (Some h)"
    by (simp add: t m del: append.simps)
qed

text \<open>
  The cookie string with the new \<open>sessionid\<close> cookie among the visible ones, after cookies
  that the loop has gone through before: the loop finds the new cookie.
\<close>

lemma find_sessionid_after_put:
  assumes hex: "set h \<subseteq> set ''0123456789abcdef''" and ne: "h \<noteq> []"
    and first: "find_sessionid (split_char CHR '';'' (join ''; '' (A @ B))) = Normal None"
  shows "find_sessionid (split_char CHR '';'' (join ''; '' (A @ (''sessionid='' @ h) # D))) = Normal (Some h)"
proof -
  have nosemi: "CHR '';'' \<notin> set (''sessionid='' @ h)" "CHR '';'' \<notin> set (CHR '' '' # ''sessionid='' @ h)"
    using hex_chars(2) [OF hex] by auto
  have tail: "\<exists>rest. split_char CHR '';'' (join ''; '' ((''sessionid='' @ h) # D)) = (''sessionid='' @ h) # rest"
  proof (cases D)
    case Nil
    then show ?thesis by (simp add: split_char_no_separator [OF nosemi(1)] del: append.simps)
  next
    case (Cons d D')
    have "join ''; '' ((''sessionid='' @ h) # D) = (''sessionid='' @ h) @ CHR '';'' # (CHR '' '' # join ''; '' D)"
      by (simp add: Cons join_Cons)
    then show ?thesis
      by (simp only: split_char_append split_char_no_separator [OF nosemi(1)]) simp
  qed
  show ?thesis
  proof (cases A)
    case Nil
    from tail obtain rest where
      "split_char CHR '';'' (join ''; '' ((''sessionid='' @ h) # D)) = (''sessionid='' @ h) # rest"
      by blast
    then show ?thesis
      by (simp only: Nil append_Nil find_sessionid_piece(1) [OF hex ne])
  next
    case (Cons a A')
    have s2: "join ''; '' (A @ (''sessionid='' @ h) # D)
        = join ''; '' A @ CHR '';'' # (CHR '' '' # join ''; '' ((''sessionid='' @ h) # D))"
      using join_append [of A "(''sessionid='' @ h) # D" "''; ''"] by (simp add: Cons)
    have "\<exists>rest. split_char CHR '';'' (CHR '' '' # join ''; '' ((''sessionid='' @ h) # D))
        = (CHR '' '' # ''sessionid='' @ h) # rest"
      using tail by (auto simp: cons_first_def)
    then obtain rest where r:
      "split_char CHR '';'' (CHR '' '' # join ''; '' ((''sessionid='' @ h) # D))
        = (CHR '' '' # ''sessionid='' @ h) # rest"
      by blast
    have pre: "find_sessionid (split_char CHR '';'' (join ''; '' A)) = Normal None"
    proof (cases B)
      case Nil
      with first show ?thesis by simp
    next
      case (Cons b B')
      have "join ''; '' (A @ B) = join ''; '' A @ CHR '';'' # (CHR '' '' # join ''; '' B)"
        using join_append [of A B "''; ''"] \<open>A = a # A'\<close> Cons by simp
      with first have "find_sessionid (split_char CHR '';'' (join ''; '' A)
          @ split_char CHR '';'' (CHR '' '' # join ''; '' B)) = Normal None"
        by (simp only: split_char_append)
      then show ?thesis by (rule find_sessionid_prefix)
    qed
    have "find_sessionid (split_char CHR '';'' (join ''; '' (A @ (''sessionid='' @ h) # D)))
        = find_sessionid (split_char CHR '';'' (join ''; '' A) @ (CHR '' '' # ''sessionid='' @ h) # rest)"
      by (simp only: s2 split_char_append r)
    also have "\<dots> = find_sessionid ((CHR '' '' # ''sessionid='' @ h) # rest)"
      using pre by (rule find_sessionid_append)
    also have "\<dots> = Normal (Some h)"
      by (rule find_sessionid_piece(2) [OF hex ne])
    finally show ?thesis .
  qed
qed

lemma getSessionID_again:
  assumes "url = (case host of None \<Rightarrow> ''http://steamcommunity.com'' | Some h \<Rightarrow> h)"
    and "url_host url = ''steamcommunity.com'' \<or> url_host url = ''store.steampowered.com''
      \<or> url_host url = ''help.steampowered.com''"
    and "find_sessionid (split_char CHR '';'' (getCookieString (jar st) url)) = Normal None"
  shows "getSessionID rnd' host (snd (getSessionID rnd host st))
       = (Normal (generateSessionID rnd), snd (getSessionID rnd host st))"
proof -
  define sid where "sid = generateSessionID rnd"
  define c where "c = \<lparr>key = ''sessionid'', cvalue = sid, secure = False, expired = False\<rparr>"
  have hex: "set sid \<subseteq> set ''0123456789abcdef''" and ne: "sid \<noteq> []"
    using generateSessionID_hex [of rnd] generateSessionID_length [of rnd] by (auto simp: sid_def)
  have first: "getSessionID rnd host st = (Normal sid, st\<lparr>jar := jar st @ copies c\<rparr>)"
    using getSessionID_fresh [of st host rnd] assms(1,3) by (simp add: sid_def c_def)
  obtain xs ys zs where
    v2: "filter (visible url) (jar_store (jar st @ copies c)) = xs @ (url_host url, c) # ys" and
    v1: "filter (visible url) (jar_store (jar st)) = xs @ zs"
    using visible_after_copies [OF assms(2), of c "jar st"] by (auto simp: c_def)
  define f where "f = (\<lambda>hc :: string \<times> cookie. cookieString (snd hc))"
  have s1: "getCookieString (jar st) url = join ''; '' (map f xs @ map f zs)"
    by (simp add: getCookieString_def v1 f_def)
  have s2: "getCookieString (jar st @ copies c) url
      = join ''; '' (map f xs @ (''sessionid='' @ sid) # map f ys)"
    by (simp only: getCookieString_def v2) (simp add: f_def cookieString_def c_def)
  have found: "find_sessionid (split_char CHR '';'' (getCookieString (jar st @ copies c) url))
      = Normal (Some sid)"
    unfolding s2 using assms(3) unfolding s1 by (rule find_sessionid_after_put [OF hex ne])
  have "CHR ''%'' \<notin> set sid"
    using hex_chars(4) [OF hex] by auto
  then have dec: "decodeURIComponent (JStr sid) = Normal sid"
    by (simp add: decodeURIComponent_def decode_string_plain)
  have second: "getSessionID rnd' host (st\<lparr>jar := jar st @ copies c\<rparr>)
      = (Normal sid, st\<lparr>jar := jar st @ copies c\<rparr>)"
    using getSessionID_found [of "st\<lparr>jar := jar st @ copies c\<rparr>" host sid rnd'] found assms(1) dec
    by simp
  show ?thesis
    using first second by (simp add: sid_def c_def)
qed

lemma new_client_cookies:
  "find_sessionid (split_char CHR '';'' (getCookieString (jar (SteamCommunity default_options))
      ''http://steamcommunity.com'')) = Normal None"
  "generateSessionID (env_random sample_env) = ''00112233445566778899aabb''"
  "decodeURIComponent (JStr ''00112233445566778899aabb'') = Normal ''00112233445566778899aabb''"
  by code_simp+

text \<open>
  A host to which the jar shows no cookie, and a cookie with an empty value before any
  \<open>sessionid\<close> cookie: the piece of the cookie string does not match, and reading
  \<open>match[1]\<close> throws.
\<close>

lemma getSessionID_host_without_cookies:
  "getCookieString (jar (SteamCommunity default_options)) ''https://api.steampowered.com'' = []
   \<and> getSessionID (env_random sample_env) (Some ''https://api.steampowered.com'') (SteamCommunity default_options)
       = (Throws TypeError, SteamCommunity default_options)
   \<and> fst (getSessionID (env_random sample_env) None (snd (setCookies [''a=''] (SteamCommunity default_options))))
       = Throws TypeError"
  by code_simp

section \<open>Credentials are checked before anything else\<close>

text \<open>
  C4. When \<open>accountName\<close> or \<open>password\<close> is empty or missing (falsy), \<open>login\<close> throws the
  error that says both are needed. The client is returned as it was: no cookie is
  written, no request is issued and no callback is invoked, so the failure is not
  reported through the callback.
\<close>

theorem login_missing_credentials:
  "\<not> truthy (accountName d) \<or> \<not> truthy (password d) \<Longrightarrow>
   login d st =
     (Throws (ThrownError ''Missing either accountName or password to login; both are needed''), st)"
  by (simp add: login_def)

theorem login_missing_credentials_witness:
  "accountName (credentials [] ''hunter2'') = JStr []
   \<and> login (credentials [] ''hunter2'') (SteamCommunity default_options)
     = (Throws (ThrownError ''Missing either accountName or password to login; both are needed''),
        SteamCommunity default_options)"
  using login_missing_credentials [of "credentials [] ''hunter2''" "SteamCommunity default_options"]
  by (simp add: credentials_def)

section \<open>The outcomes of the login form\<close>

text \<open>
  C1. The handler of the response to the login form tells the outcomes apart in the order
  email guard, mobile guard, CAPTCHA, rejected credentials, malformed response, success;
  \<open>login_outcomes\<close> above has the order for every response whose message is a string.
  A failed response that carries the captcha flag and no message is not reported as
  rejected credentials with \<open>Unknown error\<close>: \<open>body.message.match\<close> throws a TypeError
  after the mobile cookies are deleted, and no callback is invoked. The same response
  without the captcha flag is reported as \<open>Unknown error\<close>.
\<close>

theorem login_captcha_flag_without_message:
  "message (failed_body\<lparr>captcha_needed := JBool True\<rparr>) = JUndefined
   \<and> login_dologin_response (credentials ''gaben'' ''hunter2'') sample_env None
        (failed_body\<lparr>captcha_needed := JBool True\<rparr>) (SteamCommunity default_options)
       = (Throws TypeError, snd (deleteMobileCookies (SteamCommunity default_options)))
   \<and> trace (snd (login_dologin_response (credentials ''gaben'' ''hunter2'') sample_env None
        (failed_body\<lparr>captcha_needed := JBool True\<rparr>) (SteamCommunity default_options))) = []
   \<and> trace (snd (login_dologin_response (credentials ''gaben'' ''hunter2'') sample_env None
        failed_body (SteamCommunity default_options)))
       = [Callback [CbErr (Err ''Unknown error'' [])]]"
  by code_simp

section \<open>Every cookie goes to the three domains\<close>

text \<open>
  C2. \<open>_setCookie\<close> writes the cookie, with its \<open>secure\<close> flag set to the truth value of the
  second argument, to the three collaborating domains, under https if the flag is true
  and under http otherwise (\<open>copies\<close>). The constructor, \<open>setCookies\<close>, the three
  stages of \<open>login\<close> and \<open>getSessionID\<close> write to the jar in such triples only, whether
  they return or throw, and \<open>setCookies\<close> writes one triple for each string when it returns.
\<close>

theorem cookies_replicated:
  "jar (setCookie c sec st) = jar st @ copies (c\<lparr>secure := truthy sec\<rparr>)
   \<and> replicated (jar (SteamCommunity opts))
   \<and> jar_extends st (snd (setCookies cs st))
   \<and> (fst (setCookies cs st) = Normal ()
        \<longrightarrow> length (jar (snd (setCookies cs st))) = length (jar st) + 3 * length cs)
   \<and> jar_extends st (snd (login d st))
   \<and> jar_extends st (snd (login_getrsakey_response d rsa error kb st))
   \<and> jar_extends st (snd (login_dologin_response d env error' body st))
   \<and> jar_extends st (snd (getSessionID rnd host st))"
  by (simp add: jar_setCookie replicated_new_client jar_extends_setCookies setCookies_count
        jar_extends_login jar_extends_getrsakey jar_extends_dologin jar_extends_getSessionID)

theorem cookies_replicated_witness:
  "fst (setCookies [''steamLoginSecure=76561198000000000%7C%7CAB'', ''sessionid=abc'']
         (SteamCommunity default_options)) = Normal ()
   \<and> length (jar (snd (setCookies [''steamLoginSecure=76561198000000000%7C%7CAB'', ''sessionid=abc'']
         (SteamCommunity default_options)))) = 12
   \<and> drop 6 (jar (snd (setCookies [''steamLoginSecure=76561198000000000%7C%7CAB'', ''sessionid=abc'']
         (SteamCommunity default_options))))
      = [(''https://steamcommunity.com'',
            \<lparr>key = ''steamLoginSecure'', cvalue = ''76561198000000000%7C%7CAB'', secure = True, expired = False\<rparr>),
         (''https://store.steampowered.com'',
            \<lparr>key = ''steamLoginSecure'', cvalue = ''76561198000000000%7C%7CAB'', secure = True, expired = False\<rparr>),
         (''https://help.steampowered.com'',
            \<lparr>key = ''steamLoginSecure'', cvalue = ''76561198000000000%7C%7CAB'', secure = True, expired = False\<rparr>),
         (''http://steamcommunity.com'',
            \<lparr>key = ''sessionid'', cvalue = ''abc'', secure = False, expired = False\<rparr>),
         (''http://store.steampowered.com'',
            \<lparr>key = ''sessionid'', cvalue = ''abc'', secure = False, expired = False\<rparr>),
         (''http://help.steampowered.com'',
            \<lparr>key = ''sessionid'', cvalue = ''abc'', secure = False, expired = False\<rparr>)]"
proof -
  have n: "length (jar (SteamCommunity default_options)) = 6"
    by (simp add: SteamCommunity_def setCookie_of_def Request_cookie_language Request_cookie_timezone
          setCookie_def Let_def)
  show ?thesis
    using n cookies_replicated
      [where cs = "[''steamLoginSecure=76561198000000000%7C%7CAB'', ''sessionid=abc'']"
         and st = "SteamCommunity default_options"]
    by (simp add: setCookies_sample copies_def scheme_def del: setCookies.simps)
qed

section \<open>Importing cookies\<close>

text \<open>
  C3. \<open>setCookies\<close> takes as the name of a cookie string the text before its last \<open>=\<close>
  (\<open>.+\<close> is greedy), not the text before the first one. For a \<open>steamLoginSecure\<close> cookie
  whose value holds an \<open>=\<close> the name so read is neither \<open>steamLoginSecure\<close> nor a name that
  ends in \<open>Secure\<close>: the identity is not set, and the cookie, whose name in the jar is
  \<open>steamLoginSecure\<close>, is written as non-secure under http.
\<close>

theorem setCookies_equals_sign_in_value:
  "match_name ''steamLoginSecure=76561198000000000||AB==''
     = Some ''steamLoginSecure=76561198000000000||AB=''
   \<and> setCookies [''steamLoginSecure=76561198000000000||AB==''] (SteamCommunity default_options)
     = (Normal (),
        (SteamCommunity default_options)\<lparr>jar := jar (SteamCommunity default_options)
           @ copies \<lparr>key = ''steamLoginSecure'', cvalue = ''76561198000000000||AB=='',
                     secure = False, expired = False\<rparr>\<rparr>)
   \<and> steamID (snd (setCookies [''steamLoginSecure=76561198000000000||AB==''] (SteamCommunity default_options)))
     = None
   \<and> scheme \<lparr>key = ''steamLoginSecure'', cvalue = ''76561198000000000||AB=='',
                     secure = False, expired = False\<rparr> = ''http''"
  by code_simp

section \<open>The cached profile URL\<close>




section \<open>Timers are never cancelled\<close>

text \<open>
  C6, as stated, fails: the login after 50 seconds deletes the cached URL and leaves the
  timer of the first resolution pending; the URL cached after 55 seconds is deleted by
  that timer after 60 seconds, 5 seconds into its life.
\<close>

theorem stale_timer_counterexample:
  "timers run_resolved = [60000]
   \<and> profileURL run_login = None \<and> clock run_login = 50000 \<and> timers run_login = [60000]
   \<and> profileURL run_resolved_again = Some ''/id/gaben'' \<and> clock run_resolved_again = 55000
   \<and> profileURL (advance 60000 run_resolved_again) = None"
  using run_resolved_fields run_login_fields run_resolved_again_fields
  by (simp add: advance_def)

text \<open>
  C6, amended. \<open>login\<close> deletes the cached URL and leaves the pending timers as they are;
  time passing removes the timers that are due and nothing else does. A due timer deletes
  whatever URL is cached when it fires, and the URL stays as long as no pending timer is
  due; a resolution adds its own timer, 60 seconds ahead, behind the pending ones. So a URL
  cached after an invalidation lasts until the earliest pending timer fires: its own 60
  seconds only when no earlier timer is pending.
\<close>

theorem stale_timer_evicts:
  "timers (snd (login d st)) = timers st
   \<and> timers (advance t st) = filter (\<lambda>due. t < due) (timers st)
   \<and> (due \<in> set (timers st) \<and> due \<le> t \<longrightarrow> profileURL (advance t st) = None)
   \<and> ((\<forall>due\<in>set (timers st). t' < due) \<longrightarrow> profileURL (advance t' st) = profileURL st)
   \<and> (match_profile loc = Some p
        \<longrightarrow> profileURL (snd (myProfile_response ep form None 302 (Some loc) st)) = Some p
          \<and> timers (snd (myProfile_response ep form None 302 (Some loc) st))
              = timers st @ [clock st + 60000])"
proof -
  have "(\<lambda>due. \<not> due \<le> t) = (\<lambda>due. t < due)" by auto
  then have a: "timers (advance t st) = filter (\<lambda>due. t < due) (timers st)" by simp
  show ?thesis
    using a by (auto simp: login_keeps_timers advance_evicts advance_keeps myProfile_response_found)
qed

theorem stale_timer_evicts_witness:
  "timers run_resolved_again = [60000, 115000]
   \<and> profileURL (advance 60000 run_resolved_again) = None
   \<and> profileURL (advance 59999 run_resolved_again) = Some ''/id/gaben''
   \<and> timers (snd (login (credentials ''gaben'' ''hunter2'') run_resolved_again)) = [60000, 115000]
   \<and> match_profile ''https://steamcommunity.com/id/gaben/'' = Some ''/id/gaben''
   \<and> timers (snd (myProfile_response (EndpointString ''edit'') None None 302
         (Some ''https://steamcommunity.com/id/gaben/'') run_resolved_again))
       = [60000, 115000, 115000]"
  using stale_timer_evicts
      [where st = run_resolved_again and t = 60000 and due = 60000 and t' = 59999
         and loc = "''https://steamcommunity.com/id/gaben/''" and p = "''/id/gaben''"
         and d = "credentials ''gaben'' ''hunter2''" and ep = "EndpointString ''edit''" and form = None]
  by (simp add: run_resolved_again_fields match_profile_sample del: match_profile.simps)

section \<open>The pending CAPTCHA\<close>

text \<open>
  C7. A new client has the CAPTCHA id -1. When the handler of the login response takes the
  CAPTCHA branch, the error it reports carries the render URL that ends in the
  \<open>captcha_gid\<close> of the response, and that gid is kept in the \<open>_captchaGid\<close> field of the
  client. It is not put on the session: the identity and the OAuth token are left as they
  were, and the only writes to the jar are the two that delete the mobile cookies. The
  next login attempt, once its RSA key has arrived and the package has encrypted the
  password, submits a form whose \<open>captchagid\<close> is the kept gid. Nothing in \<open>details\<close> names
  a CAPTCHA id, so no attempt supplies its own.
\<close>

theorem captcha_gid_remembered:
  assumes "\<not> truthy (success body)" "\<not> truthy (emailauth_needed body)"
    "\<not> truthy (requires_twofactor body)" "truthy (captcha_needed body)"
    "message body = JStr m" "contains ''Please verify your humanity'' m"
    "truthy (publickey_mod kb)" "truthy (publickey_exp kb)"
    "rsa_setPublic rsa = Normal ()" "rsa_encrypt rsa = Normal enc"
  shows "captchaGid (SteamCommunity opts) = JNum (- 1)
    \<and> last (trace (snd (login_dologin_response d env None body st)))
        = Callback [CbErr (Err ''CAPTCHA''
            [(''captchaurl'', JStr (''https://steamcommunity.com/login/rendercaptcha/?gid=''
                @ js_to_string (captcha_gid body)))])]
    \<and> captchaGid (snd (login_dologin_response d env None body st)) = captcha_gid body
    \<and> steamID (snd (login_dologin_response d env None body st)) = steamID st
    \<and> oAuthToken (snd (login_dologin_response d env None body st)) = oAuthToken st
    \<and> jar (snd (login_dologin_response d env None body st))
        = jar st
          @ copies \<lparr>key = ''mobileClientVersion'', cvalue = [], secure = False, expired = True\<rparr>
          @ copies \<lparr>key = ''mobileClient'', cvalue = [], secure = False, expired = True\<rparr>
    \<and> fst (login_getrsakey_response d' rsa None kb
            (snd (login d' (snd (login_dologin_response d env None body st))))) = Normal ()
    \<and> form_field
         (last (trace (snd (login_getrsakey_response d' rsa None kb
            (snd (login d' (snd (login_dologin_response d env None body st)))))))) ''captchagid''
        = Some (captcha_gid body)"
proof -
  have a: "captchaGid (SteamCommunity opts) = JNum (- 1)"
    by (simp add: SteamCommunity_def setCookie_of_def Request_cookie_language Request_cookie_timezone)
  note b = dologin_captcha [OF assms(1-6), of d env st]
  have c: "captchaGid (snd (login d' (snd (login_dologin_response d env None body st)))) = captcha_gid body"
    by (simp add: login_keeps_captchaGid b)
  have s: "steamID (snd (login_dologin_response d env None body st)) = steamID st"
    "oAuthToken (snd (login_dologin_response d env None body st)) = oAuthToken st"
    "jar (snd (login_dologin_response d env None body st))
        = jar st
          @ copies \<lparr>key = ''mobileClientVersion'', cvalue = [], secure = False, expired = True\<rparr>
          @ copies \<lparr>key = ''mobileClient'', cvalue = [], secure = False, expired = True\<rparr>"
    by (simp_all add: b deleteMobileCookies_writes emit_def)
  show ?thesis
    using a c s by (simp add: b getrsakey_form [OF assms(7-10)] formObj_captchagid)
qed

theorem captcha_gid_remembered_witness:
  "contains ''Please verify your humanity'' ''Please verify your humanity''
   \<and> rsa_encrypt sample_rsa = Normal sample_ciphertext
   \<and> captchaGid (SteamCommunity default_options) = JNum (- 1)
   \<and> last (trace (snd (login_dologin_response (credentials ''gaben'' ''hunter2'') sample_env None
          (failed_body\<lparr>captcha_needed := JBool True, message := JStr ''Please verify your humanity'',
             captcha_gid := JStr ''1234''\<rparr>)
          (SteamCommunity default_options))))
       = Callback [CbErr (Err ''CAPTCHA''
           [(''captchaurl'', JStr ''https://steamcommunity.com/login/rendercaptcha/?gid=1234'')])]
   \<and> steamID (snd (login_dologin_response (credentials ''gaben'' ''hunter2'') sample_env None
          (failed_body\<lparr>captcha_needed := JBool True, message := JStr ''Please verify your humanity'',
             captcha_gid := JStr ''1234''\<rparr>)
          (SteamCommunity default_options))) = None
   \<and> form_field
        (last (trace (snd (login_getrsakey_response (credentials ''gaben'' ''hunter2'') sample_rsa None sample_key
           (snd (login (credentials ''gaben'' ''hunter2'')
              (snd (login_dologin_response (credentials ''gaben'' ''hunter2'') sample_env None
                (failed_body\<lparr>captcha_needed := JBool True, message := JStr ''Please verify your humanity'',
                   captcha_gid := JStr ''1234''\<rparr>)
                (SteamCommunity default_options))))))))) ''captchagid''
       = Some (JStr ''1234'')"
proof -
  have h: "contains ''Please verify your humanity'' ''Please verify your humanity''"
    by (simp add: starts_with_def)
  have n: "steamID (SteamCommunity default_options) = None"
    by (simp add: SteamCommunity_def setCookie_of_def Request_cookie_language Request_cookie_timezone
          setCookie_def Let_def)
  show ?thesis
    using h n captcha_gid_remembered
      [where body = "failed_body\<lparr>captcha_needed := JBool True,
           message := JStr ''Please verify your humanity'', captcha_gid := JStr ''1234''\<rparr>"
         and m = "''Please verify your humanity''" and kb = sample_key
         and rsa = sample_rsa and enc = sample_ciphertext
         and opts = default_options and d = "credentials ''gaben'' ''hunter2''" and env = sample_env
         and st = "SteamCommunity default_options" and d' = "credentials ''gaben'' ''hunter2''"]
    by (simp add: failed_body_def sample_key_def sample_rsa_def)
qed

section \<open>A session that has expired\<close>

text \<open>
  C8. When the response to \<open>/chat/clientjstoken\<close> has status 200 and a body whose
  \<open>logged_in\<close> is falsy, the handler passes the error \<open>Not Logged In\<close> to the callback and
  then reports the same error as expired session: one callback, one \<open>sessionExpired\<close>
  event, nothing else.
\<close>

theorem getClientLogonToken_not_logged_in:
  "\<not> truthy (logged_in body) \<Longrightarrow>
   getClientLogonToken_response None 200 body st
     = (Normal (),
        st\<lparr>trace := trace st @
              [Callback [CbErr (Err ''Not Logged In'' [])],
               Emit ''sessionExpired'' [CbErr (Err ''Not Logged In'' [])]]\<rparr>)
   \<and> length (filter is_sessionExpired (trace (snd (getClientLogonToken_response None 200 body st))))
       = length (filter is_sessionExpired (trace st)) + 1"
  by (simp add: getClientLogonToken_response_def notifySessionExpired_def emit_def)

theorem getClientLogonToken_not_logged_in_witness:
  "logged_in \<lparr>logged_in = JBool False, steamid = JUndefined, account_name = JUndefined, token = JUndefined\<rparr>
     = JBool False
   \<and> trace (snd (getClientLogonToken_response None 200
        \<lparr>logged_in = JBool False, steamid = JUndefined, account_name = JUndefined, token = JUndefined\<rparr>
        (getClientLogonToken (SteamCommunity default_options))))
     = [HttpRequest \<lparr>req_method = ''GET'', req_uri = ''https://steamcommunity.com/chat/clientjstoken'',
          req_form = None, req_headers = [], req_flags = [(''json'', JBool True)]\<rparr>,
        Callback [CbErr (Err ''Not Logged In'' [])],
        Emit ''sessionExpired'' [CbErr (Err ''Not Logged In'' [])]]"
  using getClientLogonToken_not_logged_in
    [of "\<lparr>logged_in = JBool False, steamid = JUndefined, account_name = JUndefined, token = JUndefined\<rparr>"
        "getClientLogonToken (SteamCommunity default_options)"]
  by (simp add: getClientLogonToken_def emit_def SteamCommunity_def setCookie_of_def
        Request_cookie_language Request_cookie_timezone setCookie_def Let_def)

section \<open>Reading the session id\<close>

text \<open>
  C9, as stated, fails: for a host outside the three domains that has a cookie of its own
  in the jar, the session id that \<open>getSessionID\<close> installs on the three domains is not
  among the cookies of that host, and the second call returns another id than the first.
\<close>

theorem getSessionID_other_host:
  "getCookieString (jar other_host_cookie) ''https://api.steampowered.com'' = ''browserid=42''
   \<and> fst (getSessionID (\<lambda>i. 0) (Some ''https://api.steampowered.com'') other_host_cookie)
       = Normal ''000000000000000000000000''
   \<and> fst (getSessionID (\<lambda>i. 255) (Some ''https://api.steampowered.com'')
          (snd (getSessionID (\<lambda>i. 0) (Some ''https://api.steampowered.com'') other_host_cookie)))
       = Normal ''ffffffffffffffffffffffff''"
  by code_simp

text \<open>
  C9, amended. When the loop of \<open>getSessionID\<close> over the cookies visible to the host ends
  without a \<open>sessionid\<close> cookie, a session id of 24 hexadecimal characters is generated
  from 12 random bytes, installed as a cookie on the three collaborating domains and
  returned; if the host is on one of the three domains, a second call for it returns the
  same id and leaves the jar as it is. When the loop finds a \<open>sessionid\<close> cookie, the
  URL-decoded value of the cookie is what is returned, and the jar is left as it is.
\<close>

theorem getSessionID_persistent:
  "(find_sessionid (split_char CHR '';'' (getCookieString (jar st)
        (case host of None \<Rightarrow> ''http://steamcommunity.com'' | Some h \<Rightarrow> h))) = Normal None
      \<longrightarrow> getSessionID rnd host st
            = (Normal (generateSessionID rnd),
               st\<lparr>jar := jar st @ copies \<lparr>key = ''sessionid'', cvalue = generateSessionID rnd,
                                           secure = False, expired = False\<rparr>\<rparr>)
          \<and> length (generateSessionID rnd) = 24
          \<and> set (generateSessionID rnd) \<subseteq> set ''0123456789abcdef'')
   \<and> (find_sessionid (split_char CHR '';'' (getCookieString (jar st)
        (case host of None \<Rightarrow> ''http://steamcommunity.com'' | Some h \<Rightarrow> h))) = Normal None
       \<and> (url_host (case host of None \<Rightarrow> ''http://steamcommunity.com'' | Some h \<Rightarrow> h) = ''steamcommunity.com''
          \<or> url_host (case host of None \<Rightarrow> ''http://steamcommunity.com'' | Some h \<Rightarrow> h) = ''store.steampowered.com''
          \<or> url_host (case host of None \<Rightarrow> ''http://steamcommunity.com'' | Some h \<Rightarrow> h) = ''help.steampowered.com'')
      \<longrightarrow> getSessionID rnd' host (snd (getSessionID rnd host st))
            = (Normal (generateSessionID rnd), snd (getSessionID rnd host st)))
   \<and> (find_sessionid (split_char CHR '';'' (getCookieString (jar st)
        (case host of None \<Rightarrow> ''http://steamcommunity.com'' | Some h \<Rightarrow> h))) = Normal (Some v)
      \<longrightarrow> getSessionID rnd host st = (decodeURIComponent (JStr v), st))"
  using getSessionID_fresh [of st host rnd] getSessionID_again [OF refl, of host st rnd' rnd]
    getSessionID_found [of st host v rnd] generateSessionID_length [of rnd] generateSessionID_hex [of rnd]
  by blast

theorem getSessionID_persistent_witness:
  "url_host ''http://steamcommunity.com'' = ''steamcommunity.com''
   \<and> fst (getSessionID (env_random sample_env) None (SteamCommunity default_options))
       = Normal ''00112233445566778899aabb''
   \<and> length ''00112233445566778899aabb'' = 24
   \<and> getSessionID (\<lambda>i. 0) None (snd (getSessionID (env_random sample_env) None (SteamCommunity default_options)))
       = (Normal ''00112233445566778899aabb'',
          snd (getSessionID (env_random sample_env) None (SteamCommunity default_options)))
   \<and> find_sessionid (split_char CHR '';'' (getCookieString
         (jar (snd (getSessionID (env_random sample_env) None (SteamCommunity default_options))))
         ''http://steamcommunity.com'')) = Normal (Some ''00112233445566778899aabb'')"
proof -
  have found: "find_sessionid (split_char CHR '';'' (getCookieString
         (jar (snd (getSessionID (env_random sample_env) None (SteamCommunity default_options))))
         ''http://steamcommunity.com'')) = Normal (Some ''00112233445566778899aabb'')"
    by code_simp
  show ?thesis
    using found
      getSessionID_persistent
        [where host = None and st = "SteamCommunity default_options" and rnd = "env_random sample_env"
           and rnd' = "\<lambda>i. 0" and v = "''00112233445566778899aabb''"]
      getSessionID_persistent
        [where host = None
           and st = "snd (getSessionID (env_random sample_env) None (SteamCommunity default_options))"
           and rnd = "\<lambda>i. 0" and rnd' = "\<lambda>i. 0" and v = "''00112233445566778899aabb''"]
    by (simp add: new_client_cookies url_host_domains)
qed

section \<open>Login and the cached profile URL\<close>

text \<open>
  C10, as stated, fails: a call of \<open>login\<close> without an account name throws before the
  cache is deleted, and the cached profile URL is still there afterwards.
\<close>

theorem login_missing_credentials_keeps_profileURL:
  "profileURL run_resolved = Some ''/id/gaben''
   \<and> login (credentials [] ''hunter2'') run_resolved
       = (Throws (ThrownError ''Missing either accountName or password to login; both are needed''), run_resolved)
   \<and> profileURL (snd (login (credentials [] ''hunter2'') run_resolved)) = Some ''/id/gaben''"
  by (simp add: login_def credentials_def run_resolved_fields)

text \<open>
  C10, amended. Every call of \<open>login\<close> that returns, as every call with an account name and
  a password and without a machine-auth token does, has deleted the cached profile URL
  before it issues its one request, the one for the RSA key; the handlers of the two
  responses leave the cache as it is, so it is cleared whatever the attempt ends in.
\<close>

theorem login_deletes_profileURL:
  "(truthy (accountName d) \<and> truthy (password d) \<and> \<not> truthy (steamguard d)
      \<longrightarrow> fst (login d st) = Normal ())
   \<and> (fst (login d st) = Normal () \<longrightarrow>
        profileURL (snd (login d st)) = None
        \<and> (\<exists>s. profileURL s = None \<and> trace s = trace st
              \<and> snd (login d st) = emit (HttpRequest
                   \<lparr>req_method = ''POST'', req_uri = ''https://steamcommunity.com/login/getrsakey/'',
                    req_form = Some [(''username'', accountName d)], req_headers = mobileHeaders d s,
                    req_flags = [(''json'', JBool True)]\<rparr>) s))
   \<and> profileURL (snd (login_getrsakey_response d rsa error kb s')) = profileURL s'
   \<and> profileURL (snd (login_dologin_response d env error' body s')) = profileURL s'"
proof -
  have a: "fst (login d st) = Normal () \<longrightarrow>
        profileURL (snd (login d st)) = None
        \<and> (\<exists>s. profileURL s = None \<and> trace s = trace st
              \<and> snd (login d st) = emit (HttpRequest
                   \<lparr>req_method = ''POST'', req_uri = ''https://steamcommunity.com/login/getrsakey/'',
                    req_form = Some [(''username'', accountName d)], req_headers = mobileHeaders d s,
                    req_flags = [(''json'', JBool True)]\<rparr>) s)"
  proof
    assume "fst (login d st) = Normal ()"
    from login_returns_request [OF this] obtain s where
      s: "profileURL s = None" "trace s = trace st"
        "login d st = (Normal (), emit (HttpRequest
        \<lparr>req_method = ''POST'', req_uri = ''https://steamcommunity.com/login/getrsakey/'',
         req_form = Some [(''username'', accountName d)], req_headers = mobileHeaders d s,
         req_flags = [(''json'', JBool True)]\<rparr>) s)"
      by blast
    from s(1) s(3) have "profileURL (snd (login d st)) = None" by simp
    moreover from s have "\<exists>s. profileURL s = None \<and> trace s = trace st
              \<and> snd (login d st) = emit (HttpRequest
                   \<lparr>req_method = ''POST'', req_uri = ''https://steamcommunity.com/login/getrsakey/'',
                    req_form = Some [(''username'', accountName d)], req_headers = mobileHeaders d s,
                    req_flags = [(''json'', JBool True)]\<rparr>) s"
      by (intro exI [of _ s]) simp
    ultimately show "profileURL (snd (login d st)) = None
        \<and> (\<exists>s. profileURL s = None \<and> trace s = trace st
              \<and> snd (login d st) = emit (HttpRequest
                   \<lparr>req_method = ''POST'', req_uri = ''https://steamcommunity.com/login/getrsakey/'',
                    req_form = Some [(''username'', accountName d)], req_headers = mobileHeaders d s,
                    req_flags = [(''json'', JBool True)]\<rparr>) s)"
      by blast
  qed
  show ?thesis
    using a by (simp add: login_returns getrsakey_keeps_profileURL dologin_keeps_profileURL)
qed

theorem login_deletes_profileURL_witness:
  "profileURL run_resolved = Some ''/id/gaben''
   \<and> fst (login (credentials ''gaben'' ''hunter2'') run_resolved) = Normal ()
   \<and> profileURL (snd (login (credentials ''gaben'' ''hunter2'') run_resolved)) = None"
  using login_deletes_profileURL [of "credentials ''gaben'' ''hunter2''" run_resolved]
  by (simp add: credentials_def run_resolved_fields)

end
